theory Spec2Isabelle
  imports Main "HOL-Library.Word"
begin

section \<open>Api session (class ApiSession)\<close>

datatype ApiSessionStates = Destroyed | Verifying | Verified

record IApiSessionAttributes =
  state :: ApiSessionStates
  token :: "string option"

text \<open>
  \<^verbatim>\<open>prepareAttributes(attributes = null)\<close>: the defaults, overridden field by field by the
  given attributes (the object spread of the source).
\<close>

definition prepareAttributes :: "IApiSessionAttributes option \<Rightarrow> IApiSessionAttributes" where
  "prepareAttributes attributes =
     (let result = \<lparr>state = Destroyed, token = None\<rparr>
      in case attributes of
           None \<Rightarrow> result
         | Some a \<Rightarrow> result\<lparr>state := state a, token := token a\<rparr>)"

text \<open>
  Every assignment \<^verbatim>\<open>this.attributes = v\<close> goes through the \<^verbatim>\<open>prepare\<close> option the
  constructor hands to the attributes subject, that is through \<^const>\<open>prepareAttributes\<close>.
  The three transition operations all overwrite the attributes, so the previous session
  value is an argument they do not read.
\<close>

definition setAsVerifying :: "string option \<Rightarrow> IApiSessionAttributes \<Rightarrow> IApiSessionAttributes" where
  "setAsVerifying tok s = prepareAttributes (Some \<lparr>state = Verifying, token = tok\<rparr>)"

definition setAsVerified :: "string option \<Rightarrow> IApiSessionAttributes \<Rightarrow> IApiSessionAttributes" where
  "setAsVerified tok s = prepareAttributes (Some \<lparr>state = Verified, token = tok\<rparr>)"

definition setAsDestroyed :: "IApiSessionAttributes \<Rightarrow> IApiSessionAttributes" where
  "setAsDestroyed s = prepareAttributes None"

definition verified :: "IApiSessionAttributes \<Rightarrow> bool" where
  "verified s = (state s = Verified)"

text \<open>The session as the constructor leaves it: \<^verbatim>\<open>super(null, ...)\<close>.\<close>

definition new_session :: IApiSessionAttributes where
  "new_session = prepareAttributes None"

text \<open>A call of one of the three transition operations, with its argument.\<close>

datatype transition =
    SetAsVerifying "string option"
  | SetAsVerified "string option"
  | SetAsDestroyed

fun apply_transition :: "IApiSessionAttributes \<Rightarrow> transition \<Rightarrow> IApiSessionAttributes" where
  "apply_transition s (SetAsVerifying tok) = setAsVerifying tok s"
| "apply_transition s (SetAsVerified tok) = setAsVerified tok s"
| "apply_transition s SetAsDestroyed = setAsDestroyed s"

definition run_transitions :: "IApiSessionAttributes \<Rightarrow> transition list \<Rightarrow> IApiSessionAttributes" where
  "run_transitions s ts = foldl apply_transition s ts"

text \<open>The session invariant of the specification: a token is present only when verified.\<close>

definition session_inv :: "IApiSessionAttributes \<Rightarrow> bool" where
  "session_inv s = (token s \<noteq> None \<longrightarrow> state s = Verified)"

text \<open>\<^verbatim>\<open>setAsVerifying()\<close> called the way \<^verbatim>\<open>createSession\<close> calls it: with the default token.\<close>

fun default_token :: "transition \<Rightarrow> bool" where
  "default_token (SetAsVerifying tok) = (tok = None)"
| "default_token _ = True"

section \<open>Api (class Api)\<close>

type_synonym bytes = "8 word list"

datatype error =
    errApiInvalidConnectionState
  | errApiUnknownHttpEndpoint
  | errApiUnknownWsEndpoint
  | TypeError
  | CollaboratorError string

text \<open>
  The fields of \<^verbatim>\<open>IApiOptions\<close> that the class reads. A missing \<^verbatim>\<open>ssl\<close> or
  \<^verbatim>\<open>manualAuth\<close> is falsy, hence \<open>False\<close>.
\<close>

record IApiOptions =
  host :: "string option"
  port :: "nat option"
  ssl :: bool
  manualAuth :: bool
  reconnectTimeout :: "nat option"

text \<open>JavaScript truthiness of a nullable string and of a nullable number.\<close>

definition truthy_string :: "string option \<Rightarrow> bool" where
  "truthy_string s = (case s of None \<Rightarrow> False | Some v \<Rightarrow> v \<noteq> [])"

definition truthy_number :: "nat option \<Rightarrow> bool" where
  "truthy_number n = (case n of None \<Rightarrow> False | Some v \<Rightarrow> v \<noteq> 0)"

text \<open>Decimal rendering of a number inside a template string.\<close>

definition digit_char :: "nat \<Rightarrow> char" where
  "digit_char d = ''0123456789'' ! d"

fun show_nat :: "nat \<Rightarrow> string" where
  "show_nat n = (if n < 10 then [digit_char n] else show_nat (n div 10) @ [digit_char (n mod 10)])"

definition buildEndpoint :: "string \<Rightarrow> IApiOptions option \<Rightarrow> string option" where
  "buildEndpoint protocol opts =
     (case opts of
        None \<Rightarrow> None
      | Some opt \<Rightarrow>
          Some (protocol @ (if ssl opt then ''s'' else []) @ ''://''
                @ (if truthy_string (host opt) then the (host opt) else ''localhost'')
                @ (if truthy_number (port opt) then '':'' @ show_nat (the (port opt)) else [])))"

record endpoints_rec =
  http :: "string option"
  ws :: "string option"

subsection \<open>The connection collaborator\<close>

datatype ApiConnectionStates = Closed | Connecting | Opened

text \<open>
  The connection object: its state, its muted flag, the frames handed to \<^verbatim>\<open>send\<close> and
  the \<^verbatim>\<open>open\<close> requests made, oldest first.
\<close>

record ApiConnection =
  conn_state :: ApiConnectionStates
  muted :: bool
  sent :: "bytes list"
  opens :: "(string option \<times> string option) list"

definition opened :: "ApiConnection \<Rightarrow> bool" where
  "opened c = (conn_state c = Opened)"

text \<open>
  Modelled from the spec: \<^verbatim>\<open>ApiConnection.open\<close>, \<^verbatim>\<open>close\<close> and \<^verbatim>\<open>send\<close>
  (src/api/ApiConnection.ts is not among the sources). Section 4.1: open "transitions to
  Connecting, then Opened on success or back to Closed on failure"; close "transitions to
  Closed"; send hands the frame to the channel. The outcome of an open arrives later and
  is not part of the call.
\<close>

definition connection_open :: "string option \<Rightarrow> string option \<Rightarrow> ApiConnection \<Rightarrow> ApiConnection" where
  "connection_open endpoint tok c = c\<lparr>conn_state := Connecting, opens := opens c @ [(endpoint, tok)]\<rparr>"

definition connection_close :: "bool \<Rightarrow> ApiConnection \<Rightarrow> ApiConnection" where
  "connection_close silent c = c\<lparr>conn_state := Closed\<rparr>"

definition connection_send :: "bytes \<Rightarrow> ApiConnection \<Rightarrow> ApiConnection" where
  "connection_send frame c = c\<lparr>sent := sent c @ [frame]\<rparr>"

subsection \<open>The Api object\<close>

text \<open>
  \<open>timers\<close> is the runtime's table of active intervals and \<open>next_timer\<close> the handle the
  next \<^verbatim>\<open>setInterval\<close> returns; \<open>reconnectInterval\<close> is the field of the class, which
  \<^verbatim>\<open>clearInterval\<close> does not reset. \<open>api_errors\<close> are the emissions of \<^verbatim>\<open>error$\<close>,
  \<open>device_address\<close> is \<^verbatim>\<open>device.address\<close>. \<open>pending\<close> counts the calls of
  \<^verbatim>\<open>createSession\<close> that the runtime holds suspended at an \<^verbatim>\<open>await\<close>.
\<close>

record Api =
  session :: IApiSessionAttributes
  options :: "IApiOptions option"
  endpoints :: endpoints_rec
  reconnectInterval :: "nat option"
  connection :: ApiConnection
  device_address :: "string option"
  timers :: "nat list"
  next_timer :: nat
  api_errors :: "error list"
  pending :: nat

definition clearInterval :: "nat \<Rightarrow> Api \<Rightarrow> Api" where
  "clearInterval h api = api\<lparr>timers := removeAll h (timers api)\<rparr>"

definition setInterval :: "Api \<Rightarrow> nat \<times> Api" where
  "setInterval api =
     (next_timer api, api\<lparr>timers := timers api @ [next_timer api], next_timer := Suc (next_timer api)\<rparr>)"

text \<open>\<^verbatim>\<open>if (this.reconnectInterval) clearInterval(this.reconnectInterval)\<close>; a handle is truthy.\<close>

definition clear_reconnect :: "Api \<Rightarrow> Api" where
  "clear_reconnect api =
     (case reconnectInterval api of None \<Rightarrow> api | Some h \<Rightarrow> clearInterval h api)"

text \<open>The closure \<^verbatim>\<open>open\<close> of \<^verbatim>\<open>openConnection\<close>: it reads the fields when it runs.\<close>

definition open_closure :: "Api \<Rightarrow> Api" where
  "open_closure api =
     api\<lparr>connection := connection_open (ws (endpoints api)) (token (session api)) (connection api)\<rparr>"

text \<open>
  A function of the class returns the error it throws, if any, and the state it leaves.
\<close>

definition openConnection :: "Api \<Rightarrow> error option \<times> Api" where
  "openConnection api =
     (let api1 = clear_reconnect api in
      if \<not> truthy_string (ws (endpoints api1)) then (Some errApiUnknownWsEndpoint, api1)
      else if \<not> verified (session api1) then (None, api1)
      else (case options api1 of
              None \<Rightarrow> (Some TypeError, api1)
            | Some opt \<Rightarrow>
                (let api2 = open_closure api1 in
                 if truthy_number (reconnectTimeout opt)
                 then (let (h, api3) = setInterval api2
                       in (None, api3\<lparr>reconnectInterval := Some h\<rparr>))
                 else (None, api2))))"

definition closeConnection :: "Api \<Rightarrow> Api" where
  "closeConnection api =
     (let api1 = clear_reconnect api
      in api1\<lparr>connection := connection_close True (connection api1)\<rparr>)"

text \<open>
  The interval callback of handle \<open>h\<close>; the runtime runs it only while \<open>h\<close> is active.
\<close>

definition reconnect_tick :: "nat \<Rightarrow> Api \<Rightarrow> Api" where
  "reconnect_tick h api =
     (if h \<in> set (timers api)
      then (case conn_state (connection api) of
              Closed \<Rightarrow> open_closure api
            | _ \<Rightarrow> api)
      else api)"

text \<open>
  \<^verbatim>\<open>call\<close>: throws when no http endpoint is known; a transport failure is swallowed and
  gives no data. \<open>response\<close> is what the backend answers: \<open>Inl\<close> when the body does not
  parse, otherwise the \<^verbatim>\<open>data\<close> field (\<open>None\<close> when absent, also after a failed fetch).
  The accessors return \<^verbatim>\<open>data || null\<close>.
\<close>

definition call :: "Api \<Rightarrow> error + 'd option \<Rightarrow> error + 'd option" where
  "call api response =
     (if \<not> truthy_string (http (endpoints api)) then Inl errApiUnknownHttpEndpoint else response)"

text \<open>What the outside answers during one \<^verbatim>\<open>createSession\<close>.\<close>

record session_env =
  hash_response :: "error + bytes option"
  signPersonalMessage :: "bytes \<Rightarrow> error + bytes"
  token_response :: "error + string option"

definition createSessionHash :: "session_env \<Rightarrow> Api \<Rightarrow> error + bytes option" where
  "createSessionHash env api = call api (hash_response env)"

definition signHash :: "session_env \<Rightarrow> Api \<Rightarrow> bytes \<Rightarrow> error + (string option \<times> bytes)" where
  "signHash env api hash =
     (case signPersonalMessage env hash of
        Inl e \<Rightarrow> Inl e
      | Inr sg \<Rightarrow> Inr (device_address api, sg))"

definition verifySessionHash :: "session_env \<Rightarrow> Api \<Rightarrow> bytes \<Rightarrow> string option \<Rightarrow> bytes \<Rightarrow> error + string option" where
  "verifySessionHash env api hash sgnr sg = call api (token_response env)"

text \<open>
  The three awaited steps inside the \<^verbatim>\<open>try\<close> of \<^verbatim>\<open>createSession\<close>, after
  \<^verbatim>\<open>setAsVerifying()\<close>. Destructuring \<^verbatim>\<open>null\<close> throws a TypeError.
\<close>

definition auth_steps :: "session_env \<Rightarrow> Api \<Rightarrow> error + string" where
  "auth_steps env api =
     (case createSessionHash env api of
        Inl e \<Rightarrow> Inl e
      | Inr None \<Rightarrow> Inl TypeError
      | Inr (Some hash) \<Rightarrow>
          (case signHash env api hash of
             Inl e \<Rightarrow> Inl e
           | Inr (sgnr, sg) \<Rightarrow>
               (case verifySessionHash env api hash sgnr sg of
                  Inl e \<Rightarrow> Inl e
                | Inr None \<Rightarrow> Inl TypeError
                | Inr (Some tok) \<Rightarrow> Inr tok)))"

text \<open>
  \<^verbatim>\<open>createSession\<close> is asynchronous. The call itself runs \<^verbatim>\<open>setAsVerifying()\<close>, issues
  the hash request and returns a promise; the run is then suspended. The requests and the
  signing read the object and change nothing in it. After the last \<^verbatim>\<open>await\<close>, or in the
  \<^verbatim>\<open>catch\<close> after the one that failed, the run continues in one piece: it stores the outcome
  in the session and calls \<^verbatim>\<open>openConnection\<close>. Whatever else is called while the run is
  suspended takes effect in between, and nothing cancels a suspended run.

  \<open>createSession_start\<close> is the call up to its first \<^verbatim>\<open>await\<close>, \<open>createSession_settle\<close> the
  continuation of a suspended run whose awaited steps had the given outcome, and
  \<open>createSession\<close> a whole run during which nothing else is called.
\<close>

definition createSession_start :: "Api \<Rightarrow> Api" where
  "createSession_start api =
     api\<lparr>session := setAsVerifying None (session api), pending := Suc (pending api)\<rparr>"

definition createSession_settle :: "error + string \<Rightarrow> Api \<Rightarrow> error option \<times> Api" where
  "createSession_settle outcome api =
     (if pending api = 0 then (None, api)
      else (let api1 = api\<lparr>pending := pending api - 1\<rparr>;
                api2 = (case outcome of
                          Inr tok \<Rightarrow> api1\<lparr>session := setAsVerified (Some tok) (session api1)\<rparr>
                        | Inl err \<Rightarrow> api1\<lparr>session := setAsDestroyed (session api1)\<rparr>)
            in openConnection api2))"

definition createSession :: "session_env \<Rightarrow> Api \<Rightarrow> error option \<times> Api" where
  "createSession env api =
     (let api1 = api\<lparr>session := setAsVerifying None (session api)\<rparr>;
          api2 = (case auth_steps env api1 of
                    Inr tok \<Rightarrow> api1\<lparr>session := setAsVerified (Some tok) (session api1)\<rparr>
                  | Inl err \<Rightarrow> api1\<lparr>session := setAsDestroyed (session api1)\<rparr>)
      in openConnection api2)"

definition destroySession :: "Api \<Rightarrow> Api" where
  "destroySession api = closeConnection (api\<lparr>session := setAsDestroyed (session api)\<rparr>)"

text \<open>
  \<^verbatim>\<open>error$.wrapAsync\<close> (library rxjs-addons): runs the action and forwards what it throws
  to the error subject.
\<close>

definition wrapAsync :: "(Api \<Rightarrow> error option \<times> Api) \<Rightarrow> Api \<Rightarrow> Api" where
  "wrapAsync action api =
     (case action api of
        (None, api') \<Rightarrow> api'
      | (Some err, api') \<Rightarrow> api'\<lparr>api_errors := api_errors api' @ [err]\<rparr>)"

text \<open>The first subscription of the constructor, on \<^verbatim>\<open>options$\<close>.\<close>

definition on_options :: "Api \<Rightarrow> Api" where
  "on_options api =
     api\<lparr>endpoints := \<lparr>http = buildEndpoint ''http'' (options api), ws = buildEndpoint ''ws'' (options api)\<rparr>,
         session := setAsDestroyed (session api)\<rparr>"

text \<open>
  The "auto auth" subscription on \<^verbatim>\<open>merge(options$, device.address$)\<close>. At an emission
  it either starts \<^verbatim>\<open>createSession\<close> inside \<^verbatim>\<open>error$.wrapAsync\<close>, which returns at once,
  or runs \<^verbatim>\<open>destroySession\<close>. What the started run throws when it settles later goes to
  the error subject.
\<close>

definition canAuth :: "Api \<Rightarrow> bool" where
  "canAuth api =
     (case options api of
        None \<Rightarrow> False
      | Some opt \<Rightarrow> truthy_string (device_address api) \<and> \<not> manualAuth opt)"

definition auto_auth :: "Api \<Rightarrow> Api" where
  "auto_auth api = (if canAuth api then createSession_start api else destroySession api)"

definition auto_auth_settle :: "error + string \<Rightarrow> Api \<Rightarrow> Api" where
  "auto_auth_settle outcome api = wrapAsync (createSession_settle outcome) api"

text \<open>
  An emission of \<^verbatim>\<open>options$\<close> (a configuration change) reaches both subscriptions in the
  order they were made; an emission of \<^verbatim>\<open>device.address$\<close> reaches the second only.
\<close>

datatype change = OptionsChanged "IApiOptions option" | AddressChanged "string option"

fun emit_change :: "change \<Rightarrow> Api \<Rightarrow> Api" where
  "emit_change (OptionsChanged opts) api = on_options (api\<lparr>options := opts\<rparr>)"
| "emit_change (AddressChanged a) api = api\<lparr>device_address := a\<rparr>"

definition on_change :: "change \<Rightarrow> Api \<Rightarrow> Api" where
  "on_change c api = auto_auth (emit_change c api)"

text \<open>Outbound events. \<open>enc\<close> is \<^verbatim>\<open>encodeApiEvent\<close> of the events module.\<close>

record ISignedSecureAction =
  signer :: "string option"
  recipient :: "string option"
  signature :: string

datatype IApiEvent =
    ConnectionMuted
  | ConnectionUnMuted
  | AccountUpdated string
  | AccountDeviceAdded string string
  | AccountDeviceUpdated string string
  | AccountDeviceRemoved string string
  | SignedSecureAction ISignedSecureAction
  | MuteConnection
  | UnMuteConnection

definition sendEvent :: "(IApiEvent \<Rightarrow> bytes) \<Rightarrow> IApiEvent \<Rightarrow> Api \<Rightarrow> error option \<times> Api" where
  "sendEvent enc event api =
     (if \<not> opened (connection api) then (Some errApiInvalidConnectionState, api)
      else (None, api\<lparr>connection := connection_send (enc event) (connection api)\<rparr>))"

definition muteConnection :: "(IApiEvent \<Rightarrow> bytes) \<Rightarrow> Api \<Rightarrow> error option \<times> Api" where
  "muteConnection enc api = sendEvent enc MuteConnection api"

definition unMuteConnection :: "(IApiEvent \<Rightarrow> bytes) \<Rightarrow> Api \<Rightarrow> error option \<times> Api" where
  "unMuteConnection enc api = sendEvent enc UnMuteConnection api"

definition signSecureAction ::
  "(IApiEvent \<Rightarrow> bytes) \<Rightarrow> (bytes \<Rightarrow> string) \<Rightarrow> string option \<Rightarrow> bytes \<Rightarrow> Api \<Rightarrow> error option \<times> Api" where
  "signSecureAction enc anyToHex rcpt sg api =
     sendEvent enc (SignedSecureAction \<lparr>signer = None, recipient = rcpt, signature = anyToHex sg\<rparr>) api"

section \<open>Sdk (class Sdk)\<close>

datatype LinkerActionsTypes = CreateAccountDevice | AccountDeviceCreated | Secure

datatype LinkerActionSenderTypes = Device

text \<open>
  The two payloads the class builds: \<^verbatim>\<open>ISecure {networkVersion, hash}\<close> and
  \<^verbatim>\<open>ICreateAccountDevice {networkVersion, deviceAddress, appName}\<close>.
\<close>

datatype LinkerActionPayload =
    ISecure "string option" bytes
  | ICreateAccountDevice "string option" "string option" "string option"

record ILinkerActionSender =
  sender_type :: LinkerActionSenderTypes
  sender_data :: "string option"

record ILinkerAction =
  action_type :: LinkerActionsTypes
  payload :: LinkerActionPayload
  sender :: "ILinkerActionSender option"

record ISdkSecureAction =
  sa_type :: LinkerActionsTypes
  hash :: bytes

text \<open>Account attributes: the class reads \<^verbatim>\<open>ensName\<close> and leaves the rest alone.\<close>

record IAccountAttributes =
  ensName :: "string option"

text \<open>
  The collaborators the class calls: \<^verbatim>\<open>encodeApiEvent\<close> of the events module,
  \<^verbatim>\<open>recoverAddressFromPersonalMessage\<close> of eth-utils (it may throw) and
  \<^verbatim>\<open>linker.buildActionUrl\<close>.
\<close>

record externals =
  encodeApiEvent :: "IApiEvent \<Rightarrow> bytes"
  recoverAddressFromPersonalMessage :: "bytes \<Rightarrow> string \<Rightarrow> error + string"
  buildActionUrl :: "ILinkerAction \<Rightarrow> LinkerActionSenderTypes \<Rightarrow> string"

text \<open>
  \<open>sdk_errors\<close> are the emissions of the \<^verbatim>\<open>error$\<close> of the Sdk, \<open>incomingAction\<close> those
  of \<^verbatim>\<open>linker.incomingAction$\<close>, \<open>network_version\<close> is \<^verbatim>\<open>network.version\<close>.
\<close>

record ('a, 'd) Sdk =
  api :: Api
  secureAction :: "ISdkSecureAction option"
  sdk_errors :: "error list"
  incomingAction :: "ILinkerAction list"
  account :: "'a IAccountAttributes_scheme option"
  accountDevice :: "'d option"
  network_version :: "string option"

text \<open>\<^verbatim>\<open>try { this.api.muteConnection(); } catch (err) { this.error$.next(err); }\<close>\<close>

definition muteApiConnection :: "externals \<Rightarrow> ('a, 'd) Sdk \<Rightarrow> ('a, 'd) Sdk" where
  "muteApiConnection ext sdk =
     (case muteConnection (encodeApiEvent ext) (api sdk) of
        (None, api') \<Rightarrow> sdk\<lparr>api := api'\<rparr>
      | (Some err, api') \<Rightarrow> sdk\<lparr>api := api', sdk_errors := sdk_errors sdk @ [err]\<rparr>)"

definition unMuteApiConnection :: "externals \<Rightarrow> ('a, 'd) Sdk \<Rightarrow> ('a, 'd) Sdk" where
  "unMuteApiConnection ext sdk =
     (case unMuteConnection (encodeApiEvent ext) (api sdk) of
        (None, api') \<Rightarrow> sdk\<lparr>api := api'\<rparr>
      | (Some err, api') \<Rightarrow> sdk\<lparr>api := api', sdk_errors := sdk_errors sdk @ [err]\<rparr>)"

text \<open>\<^verbatim>\<open>randomBytes(n)\<close>: the next \<open>n\<close> bytes of the entropy source \<open>src\<close>.\<close>

definition randomBytes :: "(nat \<Rightarrow> 8 word) \<Rightarrow> nat \<Rightarrow> bytes" where
  "randomBytes src n = map src [0..<n]"

definition createSecureActionUrl ::
  "externals \<Rightarrow> (nat \<Rightarrow> 8 word) \<Rightarrow> LinkerActionsTypes \<Rightarrow> ('a, 'd) Sdk \<Rightarrow> string \<times> ('a, 'd) Sdk" where
  "createSecureActionUrl ext src ty sdk =
     (let sdk1 = unMuteApiConnection ext sdk;
          h = randomBytes src 16;
          sdk2 = sdk1\<lparr>secureAction := Some \<lparr>sa_type = ty, hash = h\<rparr>\<rparr>
      in (buildActionUrl ext
            \<lparr>action_type = Secure, payload = ISecure (network_version sdk2) h, sender = None\<rparr>
            Device,
          sdk2))"

definition destroySecureAction :: "externals \<Rightarrow> ('a, 'd) Sdk \<Rightarrow> ('a, 'd) Sdk" where
  "destroySecureAction ext sdk = muteApiConnection ext sdk"

text \<open>
  The subscription on \<^verbatim>\<open>connection.muted$\<close> of \<^verbatim>\<open>configureApi\<close>, at one emission \<open>m\<close>:
  the filter lets \<open>true\<close> through only.
\<close>

definition on_muted :: "bool \<Rightarrow> ('a, 'd) Sdk \<Rightarrow> ('a, 'd) Sdk" where
  "on_muted m sdk = (if m then sdk\<lparr>secureAction := None\<rparr> else sdk)"

text \<open>
  Modelled from the spec: the setter \<^verbatim>\<open>connection.muted = v\<close> of ApiConnection
  (src/api/ApiConnection.ts is not among the sources). Section 4.1: "muted is a local flag
  mirrored from inbound mute/unmute events and settable directly", and the connection has
  "a muted stream" as an observable output: the flag is stored and reported to the
  subscribers of the stream.
\<close>

definition set_muted :: "bool \<Rightarrow> ('a, 'd) Sdk \<Rightarrow> ('a, 'd) Sdk" where
  "set_muted v sdk =
     on_muted v (sdk\<lparr>api := (api sdk)\<lparr>connection := (connection (api sdk))\<lparr>muted := v\<rparr>\<rparr>\<rparr>)"

text \<open>What the backend answers to the two re-fetches of an account-updated event.\<close>

record ('a, 'd) account_env =
  account_response :: "error + 'a IAccountAttributes_scheme option"
  accountDevice_response :: "error + 'd option"

definition getAccount :: "Api \<Rightarrow> error + 'x option \<Rightarrow> error + 'x option" where
  "getAccount a response = call a response"

definition getAccountDevice :: "Api \<Rightarrow> error + 'x option \<Rightarrow> error + 'x option" where
  "getAccountDevice a response = call a response"

definition account_ensName :: "('a, 'd) Sdk \<Rightarrow> string option" where
  "account_ensName sdk = (case account sdk of None \<Rightarrow> None | Some a \<Rightarrow> ensName a)"

text \<open>The \<^verbatim>\<open>AccountUpdated\<close> case of the event subscription.\<close>

definition on_account_updated ::
  "('a, 'd) account_env \<Rightarrow> string \<Rightarrow> ('a, 'd) Sdk \<Rightarrow> error option \<times> ('a, 'd) Sdk" where
  "on_account_updated env name sdk =
     (if account_ensName sdk = Some name
      then (case getAccount (api sdk) (account_response env) of
              Inl e \<Rightarrow> (Some e, sdk)
            | Inr accountAttributes \<Rightarrow>
                (case getAccountDevice (api sdk) (accountDevice_response env) of
                   Inl e \<Rightarrow> (Some e, sdk)
                 | Inr accountDeviceAttributes \<Rightarrow>
                     (if accountAttributes \<noteq> None \<and> accountDeviceAttributes \<noteq> None
                      then (None, sdk\<lparr>account := accountAttributes,
                                       accountDevice := accountDeviceAttributes\<rparr>)
                      else (None, sdk))))
      else (None, sdk))"

text \<open>
  The \<^verbatim>\<open>SignedSecureAction\<close> case: first the body of the \<^verbatim>\<open>try\<close>, with its two early
  returns, then the \<^verbatim>\<open>finally\<close>, which runs on every way out of the body.
\<close>

definition signed_secure_action_try ::
  "externals \<Rightarrow> ISignedSecureAction \<Rightarrow> ('a, 'd) Sdk \<Rightarrow> error option \<times> ('a, 'd) Sdk" where
  "signed_secure_action_try ext p sdk =
     (case secureAction sdk of
        None \<Rightarrow> (None, sdk)
      | Some sa \<Rightarrow>
          (case recoverAddressFromPersonalMessage ext (hash sa) (signature p) of
             Inl e \<Rightarrow> (Some e, sdk)
           | Inr recovered \<Rightarrow>
               (if signer p \<noteq> Some recovered then (None, sdk)
                else (case sa_type sa of
                        CreateAccountDevice \<Rightarrow>
                          (None, sdk\<lparr>incomingAction := incomingAction sdk @
                             [\<lparr>action_type = CreateAccountDevice,
                               payload = ICreateAccountDevice (network_version sdk) (signer p) None,
                               sender = Some \<lparr>sender_type = Device, sender_data = signer p\<rparr>\<rparr>]\<rparr>)
                      | _ \<Rightarrow> (None, sdk)))))"

definition on_signed_secure_action ::
  "externals \<Rightarrow> ISignedSecureAction \<Rightarrow> ('a, 'd) Sdk \<Rightarrow> error option \<times> ('a, 'd) Sdk" where
  "on_signed_secure_action ext p sdk =
     (let (thrown, sdk1) = signed_secure_action_try ext p sdk
      in (thrown, destroySecureAction ext sdk1))"

text \<open>The \<^verbatim>\<open>switch\<close> of the event subscription.\<close>

fun handle_event ::
  "externals \<Rightarrow> ('a, 'd) account_env \<Rightarrow> IApiEvent \<Rightarrow> ('a, 'd) Sdk \<Rightarrow> error option \<times> ('a, 'd) Sdk" where
  "handle_event ext env ConnectionMuted sdk = (None, set_muted True sdk)"
| "handle_event ext env ConnectionUnMuted sdk = (None, set_muted False sdk)"
| "handle_event ext env (AccountUpdated name) sdk = on_account_updated env name sdk"
| "handle_event ext env (AccountDeviceAdded acc addr) sdk = (None, sdk)"
| "handle_event ext env (AccountDeviceUpdated acc addr) sdk = (None, sdk)"
| "handle_event ext env (AccountDeviceRemoved acc addr) sdk = (None, sdk)"
| "handle_event ext env (SignedSecureAction p) sdk = on_signed_secure_action ext p sdk"
| "handle_event ext env MuteConnection sdk = (None, sdk)"
| "handle_event ext env UnMuteConnection sdk = (None, sdk)"

text \<open>
  \<^verbatim>\<open>error$.wrapTAsync\<close> (library rxjs-addons) around the handler: what the handler throws
  goes to the error subject of the Sdk.
\<close>

definition on_api_event ::
  "externals \<Rightarrow> ('a, 'd) account_env \<Rightarrow> IApiEvent \<Rightarrow> ('a, 'd) Sdk \<Rightarrow> ('a, 'd) Sdk" where
  "on_api_event ext env ev sdk =
     (case handle_event ext env ev sdk of
        (None, sdk') \<Rightarrow> sdk'
      | (Some err, sdk') \<Rightarrow> sdk'\<lparr>sdk_errors := sdk_errors sdk' @ [err]\<rparr>)"

section \<open>Runs of the Api object\<close>

text \<open>
  The steps that reach the reconnect timer: the two connection operations, the two session
  operations that end in them (a whole run of \<^verbatim>\<open>createSession\<close>, or its start and, at any
  later point, the continuation of a suspended run), a configuration or address change, and
  one firing of the interval callback.
\<close>

datatype api_op =
    OpenConnection
  | CloseConnection
  | CreateSession session_env
  | DestroySession
  | Change change
  | StartSession
  | Settle "error + string"
  | Tick nat

fun apply_op :: "Api \<Rightarrow> api_op \<Rightarrow> Api" where
  "apply_op a OpenConnection = snd (openConnection a)"
| "apply_op a CloseConnection = closeConnection a"
| "apply_op a (CreateSession env) = snd (createSession env a)"
| "apply_op a DestroySession = destroySession a"
| "apply_op a (Change c) = on_change c a"
| "apply_op a StartSession = createSession_start a"
| "apply_op a (Settle outcome) = auto_auth_settle outcome a"
| "apply_op a (Tick h) = reconnect_tick h a"

definition run_ops :: "Api \<Rightarrow> api_op list \<Rightarrow> Api" where
  "run_ops a ops = foldl apply_op a ops"

text \<open>Every active interval is the one the field \<open>reconnectInterval\<close> names.\<close>

definition timers_inv :: "Api \<Rightarrow> bool" where
  "timers_inv a = (distinct (timers a) \<and> set (timers a) \<subseteq> set_option (reconnectInterval a))"

text \<open>
  The object once the constructor has stored the options and its first subscription has
  seen them: session destroyed, connection closed and muted (no link is pending), no
  interval armed.
\<close>

definition new_api :: "IApiOptions option \<Rightarrow> string option \<Rightarrow> Api" where
  "new_api opts addr =
     on_options
       \<lparr>session = new_session, options = opts, endpoints = \<lparr>http = None, ws = None\<rparr>,
        reconnectInterval = None,
        connection = \<lparr>conn_state = Closed, muted = True, sent = [], opens = []\<rparr>,
        device_address = addr, timers = [], next_timer = 1, api_errors = [],
        pending = 0\<rparr>"

definition new_sdk :: "Api \<Rightarrow> string option \<Rightarrow> ('a, 'd) Sdk" where
  "new_sdk a version =
     \<lparr>api = a, secureAction = None, sdk_errors = [], incomingAction = [],
      account = None, accountDevice = None, network_version = version\<rparr>"

text \<open>The object with its connection in the state \<open>st\<close>, as the channel reports it.\<close>

definition with_conn_state :: "ApiConnectionStates \<Rightarrow> Api \<Rightarrow> Api" where
  "with_conn_state st a = a\<lparr>connection := (connection a)\<lparr>conn_state := st\<rparr>\<rparr>"

text \<open>
  Stand-ins for the collaborators, to run the model on examples: an encoder that numbers
  the event kinds, a backend that answers every step, and a signature scheme in which the
  signature of address \<open>a\<close> over the message \<open>m\<close> is the text \<open>a\<close>, a colon, and the bytes of
  \<open>m\<close> in decimal, each followed by a dot.
\<close>

fun demo_encode :: "IApiEvent \<Rightarrow> bytes" where
  "demo_encode ConnectionMuted = [0]"
| "demo_encode ConnectionUnMuted = [1]"
| "demo_encode (AccountUpdated n) = [2]"
| "demo_encode (AccountDeviceAdded a d) = [3]"
| "demo_encode (AccountDeviceUpdated a d) = [4]"
| "demo_encode (AccountDeviceRemoved a d) = [5]"
| "demo_encode (SignedSecureAction p) = [6]"
| "demo_encode MuteConnection = [7]"
| "demo_encode UnMuteConnection = [8]"

definition demo_message :: "bytes \<Rightarrow> string" where
  "demo_message m = '':'' @ concat (map (\<lambda>b. show_nat (unat b) @ ''.'') m)"

definition demo_sign :: "string \<Rightarrow> bytes \<Rightarrow> string" where
  "demo_sign a m = a @ demo_message m"

definition demo_recover :: "bytes \<Rightarrow> string \<Rightarrow> error + string" where
  "demo_recover m s =
     (let suffix = demo_message m
      in if length suffix \<le> length s \<and> drop (length s - length suffix) s = suffix
         then Inr (take (length s - length suffix) s)
         else Inl (CollaboratorError ''invalid signature''))"

definition demo_ext :: externals where
  "demo_ext =
     \<lparr>encodeApiEvent = demo_encode,
      recoverAddressFromPersonalMessage = demo_recover,
      buildActionUrl = (\<lambda>action senderType. ''blockid://link'')\<rparr>"

definition demo_env :: session_env where
  "demo_env =
     \<lparr>hash_response = Inr (Some [1, 2, 3]),
      signPersonalMessage = (\<lambda>m. Inr (m @ [255])),
      token_response = Inr (Some ''token-1'')\<rparr>"

definition demo_options :: IApiOptions where
  "demo_options =
     \<lparr>host = Some ''example.org'', port = Some 8080, ssl = True, manualAuth = False,
      reconnectTimeout = Some 5000\<rparr>"

text \<open>
  An Sdk on network 1 whose connection is in the given state, with no challenge, and the
  signed response of address \<open>a\<close> over the message \<open>m\<close> as the relay reports it.
\<close>

definition demo_sdk :: "ApiConnectionStates \<Rightarrow> (string, string) Sdk" where
  "demo_sdk st = new_sdk (with_conn_state st (new_api (Some demo_options) (Some ''0xA''))) (Some ''1'')"

definition demo_response :: "string \<Rightarrow> bytes \<Rightarrow> ISignedSecureAction" where
  "demo_response a m = \<lparr>signer = Some a, recipient = None, signature = demo_sign a m\<rparr>"

text \<open>
  The same Sdk tracking an account; the further attributes of an account are summed up in
  one text.
\<close>

definition demo_account_sdk :: "(string, string) Sdk" where
  "demo_account_sdk =
     (demo_sdk Opened)
       \<lparr>account := Some \<lparr>ensName = Some ''alice.blockid.eth'', \<dots> = ''created''\<rparr>,
        accountDevice := Some ''device, version 1''\<rparr>"

definition demo_account_env :: "string option \<Rightarrow> (string, string) account_env" where
  "demo_account_env dev =
     \<lparr>account_response = Inr (Some \<lparr>ensName = Some ''alice.blockid.eth'', \<dots> = ''deployed''\<rparr>),
      accountDevice_response = Inr dev\<rparr>"

section \<open>The session invariant\<close>

lemma session_inv_step:
  "default_token t \<Longrightarrow> session_inv (apply_transition s t)"
  by (cases t)
     (simp_all add: session_inv_def setAsVerifying_def setAsVerified_def setAsDestroyed_def
        prepareAttributes_def)

lemma session_inv_run:
  "session_inv s \<Longrightarrow> list_all default_token ts \<Longrightarrow> session_inv (run_transitions s ts)"
  unfolding run_transitions_def
  by (induction ts arbitrary: s) (simp_all add: session_inv_step)

lemma list_all_take: "list_all P xs \<Longrightarrow> list_all P (take n xs)"
  by (induction xs arbitrary: n) (auto simp: take_Cons split: nat.splits)

lemma session_inv_new: "session_inv new_session"
  by (simp add: session_inv_def new_session_def prepareAttributes_def)

text \<open>
  Claim C1, as the code has it. \<^verbatim>\<open>setAsVerifying\<close> takes a token and stores it, so the
  invariant "a token is present only in state Verified" holds in every state reached by a
  sequence of transitions (every prefix \<open>take n ts\<close> of the sequence) in which
  \<^verbatim>\<open>setAsVerifying\<close> is called with its default, the null token. A transition into
  Verifying stores the token it is given, a transition into Verified likewise, and a
  transition to Destroyed always leaves the token null.
\<close>

theorem session_invariant_default_token:
  "list_all default_token ts \<Longrightarrow>
     session_inv (run_transitions new_session (take n ts))
     \<and> setAsVerifying tok s = \<lparr>state = Verifying, token = tok\<rparr>
     \<and> setAsVerified tok s = \<lparr>state = Verified, token = tok\<rparr>
     \<and> setAsDestroyed s = \<lparr>state = Destroyed, token = None\<rparr>"
  using session_inv_run [OF session_inv_new list_all_take, of ts n]
  by (simp add: setAsVerifying_def setAsVerified_def setAsDestroyed_def prepareAttributes_def)

theorem session_invariant_default_token_witness:
  "list_all default_token [SetAsVerifying None, SetAsVerified (Some ''t1''), SetAsDestroyed]
   \<and> session_inv (run_transitions new_session
        (take 2 [SetAsVerifying None, SetAsVerified (Some ''t1''), SetAsDestroyed]))
   \<and> run_transitions new_session
        (take 2 [SetAsVerifying None, SetAsVerified (Some ''t1''), SetAsDestroyed])
       = \<lparr>state = Verified, token = Some ''t1''\<rparr>"
  using session_invariant_default_token
    [of "[SetAsVerifying None, SetAsVerified (Some ''t1''), SetAsDestroyed]" 2]
  by (simp add: run_transitions_def setAsVerifying_def setAsVerified_def prepareAttributes_def)

text \<open>
  Claim C1 as stated fails: called with a token, \<^verbatim>\<open>setAsVerifying\<close> leaves the session in
  state Verifying holding that token.
\<close>

theorem session_verifying_token_counterexample:
  "\<not> session_inv (run_transitions new_session [SetAsVerifying (Some ''stale'')])
   \<and> token (setAsVerifying (Some ''stale'') new_session) = Some ''stale''
   \<and> state (setAsVerifying (Some ''stale'') new_session) = Verifying"
  by (simp add: session_inv_def run_transitions_def setAsVerifying_def prepareAttributes_def)

section \<open>Auxiliary facts\<close>

lemma new_api_demo:
  "new_api (Some demo_options) (Some ''0xA'') =
     \<lparr>session = \<lparr>state = Destroyed, token = None\<rparr>, options = Some demo_options,
      endpoints = \<lparr>http = Some ''https://example.org:8080'', ws = Some ''wss://example.org:8080''\<rparr>,
      reconnectInterval = None,
      connection = \<lparr>conn_state = Closed, muted = True, sent = [], opens = []\<rparr>,
      device_address = Some ''0xA'', timers = [], next_timer = 1, api_errors = [],
      pending = 0\<rparr>"
  by (simp add: new_api_def on_options_def new_session_def prepareAttributes_def setAsDestroyed_def
      buildEndpoint_def demo_options_def truthy_string_def truthy_number_def digit_char_def)

lemma demo_options_fields:
  "reconnectTimeout demo_options = Some 5000" "manualAuth demo_options = False"
  by (simp_all add: demo_options_def)

lemma demo_created:
  "createSession demo_env (new_api (Some demo_options) (Some ''0xA'')) =
     (None,
      \<lparr>session = \<lparr>state = Verified, token = Some ''token-1''\<rparr>, options = Some demo_options,
       endpoints = \<lparr>http = Some ''https://example.org:8080'', ws = Some ''wss://example.org:8080''\<rparr>,
       reconnectInterval = Some 1,
       connection = \<lparr>conn_state = Connecting, muted = True, sent = [],
                     opens = [(Some ''wss://example.org:8080'', Some ''token-1'')]\<rparr>,
       device_address = Some ''0xA'', timers = [1], next_timer = 2, api_errors = [],
       pending = 0\<rparr>)"
  by (simp add: new_api_demo createSession_def auth_steps_def createSessionHash_def signHash_def
        verifySessionHash_def call_def demo_env_def setAsVerifying_def setAsVerified_def
        prepareAttributes_def openConnection_def clear_reconnect_def verified_def
        truthy_string_def truthy_number_def demo_options_fields open_closure_def
        connection_open_def setInterval_def Let_def)

lemma clear_reconnect_fields:
  "reconnectInterval (clear_reconnect a) = reconnectInterval a"
  "session (clear_reconnect a) = session a"
  "endpoints (clear_reconnect a) = endpoints a"
  "options (clear_reconnect a) = options a"
  "connection (clear_reconnect a) = connection a"
  "api_errors (clear_reconnect a) = api_errors a"
  "pending (clear_reconnect a) = pending a"
  "next_timer (clear_reconnect a) = next_timer a"
  by (simp_all add: clear_reconnect_def clearInterval_def split: option.splits)

lemma auth_steps_session: "auth_steps env (a\<lparr>session := s\<rparr>) = auth_steps env a"
  by (simp add: auth_steps_def createSessionHash_def signHash_def verifySessionHash_def call_def
        split: sum.splits option.splits)

lemma openConnection_unverified:
  "\<not> verified (session a) \<Longrightarrow>
   openConnection a =
     (if truthy_string (ws (endpoints a)) then None else Some errApiUnknownWsEndpoint,
      clear_reconnect a)"
  by (simp add: openConnection_def Let_def clear_reconnect_fields)

lemma createSession_failed:
  "auth_steps env a = Inl err \<Longrightarrow>
   createSession env a =
     (if truthy_string (ws (endpoints a)) then None else Some errApiUnknownWsEndpoint,
      clear_reconnect (a\<lparr>session := \<lparr>state = Destroyed, token = None\<rparr>\<rparr>))"
  by (simp add: createSession_def Let_def auth_steps_session openConnection_unverified
        setAsDestroyed_def prepareAttributes_def verified_def)

lemma auth_steps_failure_cases:
  "(\<exists>err. auth_steps env a = Inl err) \<longleftrightarrow>
     (\<forall>h. createSessionHash env a \<noteq> Inr (Some h))
     \<or> (\<exists>h. createSessionHash env a = Inr (Some h)
            \<and> ((\<exists>e. signPersonalMessage env h = Inl e)
               \<or> (\<forall>t. call a (token_response env) \<noteq> Inr (Some t))))"
  by (auto simp: auth_steps_def signHash_def verifySessionHash_def split: sum.splits option.splits)

lemma demo_verify_fails:
  "auth_steps (demo_env\<lparr>token_response := Inr None\<rparr>) (new_api (Some demo_options) (Some ''0xA''))
     = Inl TypeError"
  by (simp add: new_api_demo auth_steps_def createSessionHash_def signHash_def
        verifySessionHash_def call_def demo_env_def truthy_string_def)

lemma canAuth_iff:
  "canAuth x \<longleftrightarrow> (\<exists>opt. options x = Some opt \<and> \<not> manualAuth opt) \<and> truthy_string (device_address x)"
  by (auto simp: canAuth_def split: option.splits)

lemma createSession_session:
  "session (snd (createSession env a)) =
     (case auth_steps env a of
        Inr tok \<Rightarrow> \<lparr>state = Verified, token = Some tok\<rparr>
      | Inl e \<Rightarrow> \<lparr>state = Destroyed, token = None\<rparr>)"
  by (simp add: createSession_def Let_def auth_steps_session openConnection_def
        clear_reconnect_fields setAsDestroyed_def setAsVerified_def prepareAttributes_def
        setInterval_def open_closure_def
        split: sum.splits option.splits)

lemma wrapAsync_session: "session (wrapAsync f a) = session (snd (f a))"
  by (cases "f a") (auto simp: wrapAsync_def split: option.splits)

lemma createSession_whole_run:
  "createSession env a = createSession_settle (auth_steps env a) (createSession_start a)"
  by (simp add: createSession_def createSession_settle_def createSession_start_def Let_def
        auth_steps_session)

lemma createSession_settle_session:
  "0 < pending a \<Longrightarrow>
   session (snd (createSession_settle outcome a)) =
     (case outcome of
        Inr tok \<Rightarrow> \<lparr>state = Verified, token = Some tok\<rparr>
      | Inl e \<Rightarrow> \<lparr>state = Destroyed, token = None\<rparr>)"
  by (simp add: createSession_settle_def Let_def openConnection_def
        clear_reconnect_fields setAsDestroyed_def setAsVerified_def prepareAttributes_def
        setInterval_def open_closure_def
        split: sum.splits option.splits)

lemma destroySecureAction_eq:
  "destroySecureAction ext sdk =
     (if opened (connection (api sdk))
      then sdk\<lparr>api := (api sdk)\<lparr>connection := (connection (api sdk))
              \<lparr>sent := sent (connection (api sdk)) @ [encodeApiEvent ext MuteConnection]\<rparr>\<rparr>\<rparr>
      else sdk\<lparr>sdk_errors := sdk_errors sdk @ [errApiInvalidConnectionState]\<rparr>)"
  by (simp add: destroySecureAction_def muteApiConnection_def muteConnection_def sendEvent_def
        connection_send_def)

lemma destroySecureAction_fields:
  "secureAction (destroySecureAction ext sdk) = secureAction sdk"
  "incomingAction (destroySecureAction ext sdk) = incomingAction sdk"
  "account (destroySecureAction ext sdk) = account sdk"
  "accountDevice (destroySecureAction ext sdk) = accountDevice sdk"
  "network_version (destroySecureAction ext sdk) = network_version sdk"
  by (simp_all add: destroySecureAction_eq)

lemma unMuteApiConnection_eq:
  "unMuteApiConnection ext sdk =
     (if opened (connection (api sdk))
      then sdk\<lparr>api := (api sdk)\<lparr>connection := (connection (api sdk))
              \<lparr>sent := sent (connection (api sdk)) @ [encodeApiEvent ext UnMuteConnection]\<rparr>\<rparr>\<rparr>
      else sdk\<lparr>sdk_errors := sdk_errors sdk @ [errApiInvalidConnectionState]\<rparr>)"
  by (simp add: unMuteApiConnection_def unMuteConnection_def sendEvent_def connection_send_def)

lemma handler_no_challenge:
  "secureAction sdk = None \<Longrightarrow>
   on_signed_secure_action ext p sdk = (None, destroySecureAction ext sdk)"
  by (simp add: on_signed_secure_action_def signed_secure_action_try_def)

lemma handler_mismatch:
  "secureAction sdk = Some sa \<Longrightarrow>
   recoverAddressFromPersonalMessage ext (hash sa) (signature p) = Inr a \<Longrightarrow>
   signer p \<noteq> Some a \<Longrightarrow>
   on_signed_secure_action ext p sdk = (None, destroySecureAction ext sdk)"
  by (simp add: on_signed_secure_action_def signed_secure_action_try_def)

lemma handler_throws:
  "secureAction sdk = Some sa \<Longrightarrow>
   recoverAddressFromPersonalMessage ext (hash sa) (signature p) = Inl e \<Longrightarrow>
   on_signed_secure_action ext p sdk = (Some e, destroySecureAction ext sdk)"
  by (simp add: on_signed_secure_action_def signed_secure_action_try_def)

lemma handler_match:
  "secureAction sdk = Some sa \<Longrightarrow>
   recoverAddressFromPersonalMessage ext (hash sa) (signature p) = Inr a \<Longrightarrow>
   signer p = Some a \<Longrightarrow>
   on_signed_secure_action ext p sdk =
     (None, destroySecureAction ext
        (case sa_type sa of
           CreateAccountDevice \<Rightarrow>
             sdk\<lparr>incomingAction := incomingAction sdk @
               [\<lparr>action_type = CreateAccountDevice,
                 payload = ICreateAccountDevice (network_version sdk) (Some a) None,
                 sender = Some \<lparr>sender_type = Device, sender_data = Some a\<rparr>\<rparr>]\<rparr>
         | _ \<Rightarrow> sdk))"
  by (simp add: on_signed_secure_action_def signed_secure_action_try_def
        split: LinkerActionsTypes.splits)

lemma handler_keeps_slot:
  "secureAction (snd (on_signed_secure_action ext p sdk)) = secureAction sdk"
  by (simp add: on_signed_secure_action_def signed_secure_action_try_def destroySecureAction_fields
        split: option.splits sum.splits LinkerActionsTypes.splits prod.splits)

lemma unMuteApiConnection_fields:
  "secureAction (unMuteApiConnection ext sdk) = secureAction sdk"
  "incomingAction (unMuteApiConnection ext sdk) = incomingAction sdk"
  "network_version (unMuteApiConnection ext sdk) = network_version sdk"
  by (simp_all add: unMuteApiConnection_eq)

lemma createSecureActionUrl_eq:
  "createSecureActionUrl ext src ty sdk =
     (buildActionUrl ext
        \<lparr>action_type = Secure, payload = ISecure (network_version sdk) (randomBytes src 16),
         sender = None\<rparr> Device,
      (unMuteApiConnection ext sdk)\<lparr>secureAction := Some \<lparr>sa_type = ty, hash = randomBytes src 16\<rparr>\<rparr>)"
  by (simp add: createSecureActionUrl_def Let_def unMuteApiConnection_fields)

lemma demo_recover_sign: "demo_recover m (demo_sign a m) = Inr a"
  by (simp add: demo_recover_def demo_sign_def)

lemma demo_sdk_fields:
  "secureAction (demo_sdk st) = None"
  "incomingAction (demo_sdk st) = []"
  "sdk_errors (demo_sdk st) = []"
  "network_version (demo_sdk st) = Some ''1''"
  "conn_state (connection (api (demo_sdk st))) = st"
  "sent (connection (api (demo_sdk st))) = []"
  "muted (connection (api (demo_sdk st))) = True"
  by (simp_all add: demo_sdk_def new_sdk_def with_conn_state_def new_api_demo)

lemma demo_challenge_fields:
  "secureAction (snd (createSecureActionUrl demo_ext src ty (demo_sdk st))) =
     Some \<lparr>sa_type = ty, hash = randomBytes src 16\<rparr>"
  "incomingAction (snd (createSecureActionUrl demo_ext src ty (demo_sdk st))) = []"
  "network_version (snd (createSecureActionUrl demo_ext src ty (demo_sdk st))) = Some ''1''"
  "conn_state (connection (api (snd (createSecureActionUrl demo_ext src ty (demo_sdk st))))) = st"
  by (simp_all add: createSecureActionUrl_eq unMuteApiConnection_fields demo_sdk_fields
        unMuteApiConnection_eq)

lemma demo_ext_fields:
  "recoverAddressFromPersonalMessage demo_ext = demo_recover"
  "encodeApiEvent demo_ext = demo_encode"
  "buildActionUrl demo_ext = (\<lambda>action senderType. ''blockid://link'')"
  by (simp_all add: demo_ext_def)

lemma demo_response_fields:
  "signer (demo_response a m) = Some a"
  "signature (demo_response a m) = demo_sign a m"
  by (simp_all add: demo_response_def)

lemma on_muted_fields:
  "secureAction (on_muted True sdk) = None"
  "incomingAction (on_muted m sdk) = incomingAction sdk"
  "on_muted False sdk = sdk"
  by (simp_all add: on_muted_def)

lemma length_randomBytes: "length (randomBytes src n) = n"
  by (simp add: randomBytes_def)

lemma demo_late_recover:
  "demo_recover (randomBytes (\<lambda>i. 9) 16) (demo_sign ''0xB'' (randomBytes (\<lambda>i. 7) 16))
     = Inl (CollaboratorError ''invalid signature'')"
  by (simp add: demo_recover_def demo_sign_def demo_message_def digit_char_def randomBytes_def
        upt_conv_Cons)

lemma on_account_updated_other:
  "account_ensName sdk \<noteq> Some name \<Longrightarrow> on_account_updated env name sdk = (None, sdk)"
  by (simp add: on_account_updated_def)

lemma demo_account_fetch:
  "getAccount (api demo_account_sdk) (account_response (demo_account_env dev))
     = Inr (Some \<lparr>ensName = Some ''alice.blockid.eth'', \<dots> = ''deployed''\<rparr>)"
  "getAccountDevice (api demo_account_sdk) (accountDevice_response (demo_account_env dev)) = Inr dev"
  "account_ensName demo_account_sdk = Some ''alice.blockid.eth''"
  by (simp_all add: getAccount_def getAccountDevice_def call_def demo_account_sdk_def
        demo_account_env_def demo_sdk_def new_sdk_def with_conn_state_def new_api_demo
        truthy_string_def account_ensName_def)

section \<open>Outbound events\<close>

text \<open>
  Claim C8. \<^verbatim>\<open>sendEvent\<close>, and with it \<^verbatim>\<open>muteConnection\<close>, \<^verbatim>\<open>unMuteConnection\<close> and
  \<^verbatim>\<open>signSecureAction\<close>: while the connection is not in state Opened the call throws
  \<^verbatim>\<open>errApiInvalidConnectionState\<close> and leaves the whole object, the connection included,
  as it was; while it is Opened nothing is thrown and the encoded event is the one frame
  added to what the connection has been given to send.
\<close>

theorem sendEvent_requires_opened:
  "(\<not> opened (connection a) \<longrightarrow>
       sendEvent enc ev a = (Some errApiInvalidConnectionState, a)
     \<and> muteConnection enc a = (Some errApiInvalidConnectionState, a)
     \<and> unMuteConnection enc a = (Some errApiInvalidConnectionState, a)
     \<and> signSecureAction enc hex r sg a = (Some errApiInvalidConnectionState, a))
   \<and> (opened (connection a) \<longrightarrow>
       sendEvent enc ev a =
         (None, a\<lparr>connection := (connection a)\<lparr>sent := sent (connection a) @ [enc ev]\<rparr>\<rparr>)
     \<and> muteConnection enc a =
         (None, a\<lparr>connection := (connection a)\<lparr>sent := sent (connection a) @ [enc MuteConnection]\<rparr>\<rparr>)
     \<and> unMuteConnection enc a =
         (None, a\<lparr>connection := (connection a)\<lparr>sent := sent (connection a) @ [enc UnMuteConnection]\<rparr>\<rparr>)
     \<and> signSecureAction enc hex r sg a =
         (None, a\<lparr>connection := (connection a)\<lparr>sent := sent (connection a) @
            [enc (SignedSecureAction \<lparr>signer = None, recipient = r, signature = hex sg\<rparr>)]\<rparr>\<rparr>))"
  by (simp add: sendEvent_def muteConnection_def unMuteConnection_def signSecureAction_def
        connection_send_def)

theorem sendEvent_requires_opened_witness:
  "\<not> opened (connection (new_api (Some demo_options) (Some ''0xA'')))
   \<and> sendEvent demo_encode MuteConnection (new_api (Some demo_options) (Some ''0xA''))
       = (Some errApiInvalidConnectionState, new_api (Some demo_options) (Some ''0xA''))
   \<and> opened (connection (with_conn_state Opened (new_api (Some demo_options) (Some ''0xA''))))
   \<and> fst (sendEvent demo_encode MuteConnection
        (with_conn_state Opened (new_api (Some demo_options) (Some ''0xA'')))) = None
   \<and> sent (connection (snd (sendEvent demo_encode MuteConnection
        (with_conn_state Opened (new_api (Some demo_options) (Some ''0xA''))))))
       = [[7]]"
  using sendEvent_requires_opened
      [of "new_api (Some demo_options) (Some ''0xA'')" demo_encode MuteConnection]
    sendEvent_requires_opened
      [of "with_conn_state Opened (new_api (Some demo_options) (Some ''0xA''))" demo_encode
          MuteConnection]
  by (simp add: new_api_demo opened_def with_conn_state_def)

section \<open>The reconnect timer\<close>

lemma timers_clear: "timers_inv a \<Longrightarrow> timers (clear_reconnect a) = []"
  by (cases "reconnectInterval a")
     (auto simp: timers_inv_def clear_reconnect_def clearInterval_def removeAll_filter_not_eq
        filter_empty_conv)

lemma timers_inv_open: "timers_inv a \<Longrightarrow> timers_inv (snd (openConnection a))"
  using timers_clear [of a]
  by (simp add: openConnection_def Let_def timers_inv_def setInterval_def open_closure_def
       clear_reconnect_fields split: option.splits)

lemma timers_inv_close: "timers_inv a \<Longrightarrow> timers_inv (closeConnection a)"
  using timers_clear [of a]
  by (simp add: closeConnection_def Let_def timers_inv_def clear_reconnect_fields)

lemma timers_inv_session: "timers_inv (a\<lparr>session := s\<rparr>) = timers_inv a"
  by (simp add: timers_inv_def)

lemma timers_inv_create: "timers_inv a \<Longrightarrow> timers_inv (snd (createSession env a))"
  by (simp add: createSession_def Let_def timers_inv_open timers_inv_session split: sum.splits)

lemma timers_inv_destroy: "timers_inv a \<Longrightarrow> timers_inv (destroySession a)"
  by (simp add: destroySession_def timers_inv_close timers_inv_session)

lemma timers_inv_tick: "timers_inv a \<Longrightarrow> timers_inv (reconnect_tick h a)"
  by (simp add: reconnect_tick_def open_closure_def timers_inv_def split: ApiConnectionStates.splits)

lemma timers_inv_emit: "timers_inv a \<Longrightarrow> timers_inv (emit_change c a)"
  by (cases c) (simp_all add: on_options_def timers_inv_def)

lemma timers_inv_wrap:
  "timers_inv (snd (f a)) \<Longrightarrow> timers_inv (wrapAsync f a)"
  by (cases "f a") (auto simp: wrapAsync_def timers_inv_def split: option.splits)

lemma timers_inv_start: "timers_inv a \<Longrightarrow> timers_inv (createSession_start a)"
  by (simp add: createSession_start_def timers_inv_def)

lemma timers_inv_settle: "timers_inv a \<Longrightarrow> timers_inv (snd (createSession_settle outcome a))"
proof -
  assume inv: "timers_inv a"
  have "timers_inv (a\<lparr>pending := n, session := s\<rparr>)" for n s
    using inv by (simp add: timers_inv_def)
  then show ?thesis
    using inv
    by (simp add: createSession_settle_def Let_def timers_inv_open split: sum.splits)
qed

lemma timers_inv_change: "timers_inv a \<Longrightarrow> timers_inv (on_change c a)"
  by (simp add: on_change_def auto_auth_def timers_inv_start timers_inv_destroy timers_inv_emit)

lemma timers_inv_op: "timers_inv a \<Longrightarrow> timers_inv (apply_op a x)"
  by (cases x)
     (simp_all add: timers_inv_open timers_inv_close timers_inv_create timers_inv_destroy
        timers_inv_change timers_inv_tick timers_inv_start auto_auth_settle_def
        timers_inv_wrap timers_inv_settle)

lemma timers_inv_run: "timers_inv a \<Longrightarrow> timers_inv (run_ops a ops)"
  unfolding run_ops_def by (induction ops arbitrary: a) (simp_all add: timers_inv_op)

lemma timers_inv_length: "timers_inv a \<Longrightarrow> length (timers a) \<le> 1"
proof -
  assume inv: "timers_inv a"
  then have "card (set (timers a)) \<le> card (set_option (reconnectInterval a))"
    by (intro card_mono) (auto simp: timers_inv_def)
  also have "\<dots> \<le> 1"
    by (cases "reconnectInterval a") simp_all
  finally show ?thesis
    using inv by (simp add: timers_inv_def distinct_card)
qed

lemma open_arms:
  "timers_inv a \<Longrightarrow> truthy_string (ws (endpoints a)) \<Longrightarrow> verified (session a) \<Longrightarrow>
   options a = Some opt \<Longrightarrow> truthy_number (reconnectTimeout opt) \<Longrightarrow>
   timers (snd (openConnection a)) = [next_timer a]
   \<and> reconnectInterval (snd (openConnection a)) = Some (next_timer a)
   \<and> next_timer (snd (openConnection a)) = Suc (next_timer a)
   \<and> session (snd (openConnection a)) = session a
   \<and> endpoints (snd (openConnection a)) = endpoints a
   \<and> options (snd (openConnection a)) = options a"
  using timers_clear [of a]
  by (simp add: openConnection_def Let_def setInterval_def open_closure_def clear_reconnect_fields)

text \<open>
  Claim C7. Start from an object with no interval armed and run any sequence of
  \<^verbatim>\<open>openConnection\<close>, \<^verbatim>\<open>closeConnection\<close>, \<^verbatim>\<open>createSession\<close> (whole, or started and
  continued later with anything in between), \<^verbatim>\<open>destroySession\<close>, configuration and
  address changes and firings of interval callbacks. In the state reached
  at most one interval is active; the first step of \<^verbatim>\<open>openConnection\<close> and of
  \<^verbatim>\<open>closeConnection\<close> leaves none active, so a close disarms the timer in the same
  operation and an open arms at most one; and opening twice in succession, in a state where
  the open arms the timer, leaves exactly one active interval, the second one: the callback
  of the first no longer runs, so the next tick opens the connection at most once.
\<close>

theorem single_reconnect_timer:
  "timers a = [] \<Longrightarrow>
     length (timers (run_ops a ops)) \<le> 1
     \<and> timers (clear_reconnect (run_ops a ops)) = []
     \<and> timers (closeConnection (run_ops a ops)) = []
     \<and> length (timers (snd (openConnection (run_ops a ops)))) \<le> 1
     \<and> (truthy_string (ws (endpoints (run_ops a ops))) \<and> verified (session (run_ops a ops))
          \<and> options (run_ops a ops) = Some opt \<and> truthy_number (reconnectTimeout opt) \<longrightarrow>
        timers (snd (openConnection (snd (openConnection (run_ops a ops)))))
          = [Suc (next_timer (run_ops a ops))]
      \<and> reconnect_tick (next_timer (run_ops a ops))
            (snd (openConnection (snd (openConnection (run_ops a ops)))))
          = snd (openConnection (snd (openConnection (run_ops a ops)))))"
proof -
  assume "timers a = []"
  then have "timers_inv a" by (simp add: timers_inv_def)
  then have inv: "timers_inv (run_ops a ops)" by (rule timers_inv_run)
  let ?s = "run_ops a ops"
  have 1: "length (timers ?s) \<le> 1" using inv by (rule timers_inv_length)
  have 2: "timers (clear_reconnect ?s) = []" using inv by (rule timers_clear)
  have 3: "timers (closeConnection ?s) = []"
    using 2 by (simp add: closeConnection_def Let_def)
  have 4: "length (timers (snd (openConnection ?s))) \<le> 1"
    using inv by (intro timers_inv_length timers_inv_open)
  have 5: "timers (snd (openConnection (snd (openConnection ?s)))) = [Suc (next_timer ?s)]"
    if h: "truthy_string (ws (endpoints ?s))" "verified (session ?s)"
      "options ?s = Some opt" "truthy_number (reconnectTimeout opt)"
  proof -
    note first = open_arms [OF inv h]
    have "timers_inv (snd (openConnection ?s))" using inv by (rule timers_inv_open)
    from open_arms [OF this, of opt] first h show ?thesis by simp
  qed
  have 6: "reconnect_tick (next_timer ?s) (snd (openConnection (snd (openConnection ?s))))
      = snd (openConnection (snd (openConnection ?s)))"
    if h: "truthy_string (ws (endpoints ?s))" "verified (session ?s)"
      "options ?s = Some opt" "truthy_number (reconnectTimeout opt)"
    using 5 [OF h] by (simp add: reconnect_tick_def)
  from 1 2 3 4 5 6 show ?thesis by blast
qed

theorem single_reconnect_timer_witness:
  "timers (new_api (Some demo_options) (Some ''0xA'')) = []
   \<and> timers (run_ops (new_api (Some demo_options) (Some ''0xA'')) [CreateSession demo_env]) = [1]
   \<and> timers (closeConnection
        (run_ops (new_api (Some demo_options) (Some ''0xA'')) [CreateSession demo_env])) = []
   \<and> verified (session (run_ops (new_api (Some demo_options) (Some ''0xA'')) [CreateSession demo_env]))
   \<and> truthy_number (reconnectTimeout demo_options)
   \<and> timers (snd (openConnection (snd (openConnection
        (run_ops (new_api (Some demo_options) (Some ''0xA'')) [CreateSession demo_env])))))
       = [3]"
proof -
  let ?a = "new_api (Some demo_options) (Some ''0xA'')"
  let ?s = "run_ops ?a [CreateSession demo_env]"
  have s: "?s = snd (createSession demo_env ?a)" by (simp add: run_ops_def)
  have h0: "timers ?a = []" by (simp add: new_api_demo)
  have h1: "truthy_string (ws (endpoints ?s))" by (simp add: s demo_created truthy_string_def)
  have h2: "verified (session ?s)" by (simp add: s demo_created verified_def)
  have h3: "options ?s = Some demo_options" by (simp add: s demo_created)
  have h4: "truthy_number (reconnectTimeout demo_options)"
    by (simp add: demo_options_def truthy_number_def)
  have n: "Suc (next_timer ?s) = 3" by (simp add: s demo_created)
  have t: "timers ?s = [1]" by (simp add: s demo_created)
  note fact = single_reconnect_timer [OF h0, of "[CreateSession demo_env]" demo_options]
  from fact h1 h2 h3 h4 n
  have "timers (snd (openConnection (snd (openConnection ?s)))) = [3]" by simp
  moreover from fact have "timers (closeConnection ?s) = []" by blast
  ultimately show ?thesis using h0 h2 h4 t by blast
qed

section \<open>A failed authentication\<close>

text \<open>
  Claim C3, as the code has it. Let one of the three awaited steps of \<^verbatim>\<open>createSession\<close>
  fail: the hash request, the signing or the verification (\<open>auth_steps\<close> ends in an
  error; lemma \<open>auth_steps_failure_cases\<close> spells the three cases out). Then the session
  ends Destroyed with a null token, the connection is what it was before the call (a Closed
  connection stays Closed), and the failure is dropped by the \<^verbatim>\<open>catch\<close>: nothing is
  emitted on the error channel by \<^verbatim>\<open>createSession\<close>, and with a channel endpoint
  configured nothing is thrown either, so the \<^verbatim>\<open>wrapAsync\<close> around the call emits
  nothing. Only without a channel endpoint does \<^verbatim>\<open>openConnection\<close> throw
  \<^verbatim>\<open>errApiUnknownWsEndpoint\<close> out of \<^verbatim>\<open>createSession\<close>, and that error, not the
  failure, is what \<^verbatim>\<open>wrapAsync\<close> emits.
\<close>

theorem createSession_failure:
  "auth_steps env a = Inl err \<Longrightarrow>
     session (snd (createSession env a)) = \<lparr>state = Destroyed, token = None\<rparr>
     \<and> connection (snd (createSession env a)) = connection a
     \<and> api_errors (snd (createSession env a)) = api_errors a
     \<and> fst (createSession env a) =
         (if truthy_string (ws (endpoints a)) then None else Some errApiUnknownWsEndpoint)
     \<and> api_errors (wrapAsync (createSession env) a) =
         api_errors a @ (if truthy_string (ws (endpoints a)) then [] else [errApiUnknownWsEndpoint])"
  by (simp add: createSession_failed wrapAsync_def clear_reconnect_fields)

theorem createSession_failure_witness:
  "auth_steps (demo_env\<lparr>token_response := Inr None\<rparr>) (new_api (Some demo_options) (Some ''0xA''))
     = Inl TypeError
   \<and> session (snd (createSession (demo_env\<lparr>token_response := Inr None\<rparr>)
        (new_api (Some demo_options) (Some ''0xA'')))) = \<lparr>state = Destroyed, token = None\<rparr>
   \<and> conn_state (connection (snd (createSession (demo_env\<lparr>token_response := Inr None\<rparr>)
        (new_api (Some demo_options) (Some ''0xA''))))) = Closed
   \<and> fst (createSession (demo_env\<lparr>token_response := Inr None\<rparr>)
        (new_api (Some demo_options) (Some ''0xA''))) = None
   \<and> api_errors (wrapAsync (createSession (demo_env\<lparr>token_response := Inr None\<rparr>))
        (new_api (Some demo_options) (Some ''0xA''))) = []"
proof -
  let ?a = "new_api (Some demo_options) (Some ''0xA'')"
  have a: "conn_state (connection ?a) = Closed" "truthy_string (ws (endpoints ?a))"
    "api_errors ?a = []"
    by (simp_all add: new_api_demo truthy_string_def)
  from createSession_failure [OF demo_verify_fails] demo_verify_fails a
  show ?thesis by simp
qed

text \<open>
  Claim C3 as stated fails on its last part: when the verification step fails with the
  endpoints configured, no error at all reaches the error channel, neither from
  \<^verbatim>\<open>createSession\<close> nor from the \<^verbatim>\<open>wrapAsync\<close> of the auto-auth subscription.
\<close>

theorem createSession_error_channel_counterexample:
  "auth_steps (demo_env\<lparr>token_response := Inr None\<rparr>) (new_api (Some demo_options) (Some ''0xA''))
     = Inl TypeError
   \<and> length (api_errors (wrapAsync (createSession (demo_env\<lparr>token_response := Inr None\<rparr>))
        (new_api (Some demo_options) (Some ''0xA'')))) \<noteq> 1
   \<and> api_errors (snd (createSession (demo_env\<lparr>token_response := Inr None\<rparr>)
        (new_api (Some demo_options) (Some ''0xA'')))) = []"
proof -
  let ?a = "new_api (Some demo_options) (Some ''0xA'')"
  have a: "truthy_string (ws (endpoints ?a))" "api_errors ?a = []"
    by (simp_all add: new_api_demo truthy_string_def)
  from createSession_failed [OF demo_verify_fails] demo_verify_fails a
  show ?thesis by (simp add: wrapAsync_def clear_reconnect_fields)
qed

section \<open>Automatic authentication\<close>

lemma wrapAsync_fields:
  "session (wrapAsync f a) = session (snd (f a))"
  "pending (wrapAsync f a) = pending (snd (f a))"
  "connection (wrapAsync f a) = connection (snd (f a))"
  by (cases "f a"; auto simp: wrapAsync_def split: option.splits)+

lemma openConnection_pending: "pending (snd (openConnection a)) = pending a"
  by (simp add: openConnection_def Let_def clear_reconnect_fields setInterval_def open_closure_def
        split: option.splits)

lemma createSession_settle_pending:
  "pending (snd (createSession_settle outcome a)) = pending a - 1"
  by (simp add: createSession_settle_def Let_def openConnection_pending split: sum.splits)

text \<open>
  Claim C5. At every emission of a configuration change or of a device-address change the
  subscription evaluates the condition on the values then current: options present, a
  device address, manual authentication not requested. When it holds, \<^verbatim>\<open>createSession\<close>
  is started, whatever the state of the session (so also when it is not Verified): at the
  end of the emission the session is Verifying with no token, one more run is suspended
  and the connection is untouched. When it does not hold, the session is destroyed and the
  connection closed; runs that are suspended stay suspended. A suspended run, whenever it
  is continued, leaves the session Verified with the token of the backend or Destroyed.
\<close>

theorem auto_auth_level_triggered:
  "(canAuth (emit_change c a) \<longleftrightarrow>
      (\<exists>opt. options (emit_change c a) = Some opt \<and> \<not> manualAuth opt)
      \<and> truthy_string (device_address (emit_change c a)))
   \<and> (canAuth (emit_change c a) \<longrightarrow>
        on_change c a = createSession_start (emit_change c a)
      \<and> session (on_change c a) = \<lparr>state = Verifying, token = None\<rparr>
      \<and> pending (on_change c a) = Suc (pending a)
      \<and> connection (on_change c a) = connection a)
   \<and> (\<not> canAuth (emit_change c a) \<longrightarrow>
        on_change c a = destroySession (emit_change c a)
      \<and> session (on_change c a) = \<lparr>state = Destroyed, token = None\<rparr>
      \<and> conn_state (connection (on_change c a)) = Closed
      \<and> pending (on_change c a) = pending a)
   \<and> (0 < pending s \<longrightarrow>
        session (auto_auth_settle outcome s) =
          (case outcome of
             Inr tok \<Rightarrow> \<lparr>state = Verified, token = Some tok\<rparr>
           | Inl e \<Rightarrow> \<lparr>state = Destroyed, token = None\<rparr>)
      \<and> pending (auto_auth_settle outcome s) = pending s - 1)"
proof -
  have e: "pending (emit_change c a) = pending a" "connection (emit_change c a) = connection a"
    by (cases c; simp add: on_options_def)+
  show ?thesis
    by (simp add: canAuth_iff [symmetric] on_change_def auto_auth_def e createSession_start_def
          setAsVerifying_def destroySession_def closeConnection_def Let_def
          clear_reconnect_fields setAsDestroyed_def prepareAttributes_def connection_close_def
          auto_auth_settle_def wrapAsync_fields createSession_settle_session
          createSession_settle_pending)
qed

theorem auto_auth_level_triggered_witness:
  "canAuth (emit_change (AddressChanged (Some ''0xB'')) (new_api (Some demo_options) (Some ''0xA'')))
   \<and> session (on_change (AddressChanged (Some ''0xB'')) (new_api (Some demo_options) (Some ''0xA'')))
       = \<lparr>state = Verifying, token = None\<rparr>
   \<and> pending (on_change (AddressChanged (Some ''0xB'')) (new_api (Some demo_options) (Some ''0xA'')))
       = 1
   \<and> \<not> canAuth (emit_change (OptionsChanged (Some (demo_options\<lparr>manualAuth := True\<rparr>)))
        (on_change (AddressChanged (Some ''0xB'')) (new_api (Some demo_options) (Some ''0xA''))))
   \<and> session (on_change (OptionsChanged (Some (demo_options\<lparr>manualAuth := True\<rparr>)))
        (on_change (AddressChanged (Some ''0xB'')) (new_api (Some demo_options) (Some ''0xA''))))
       = \<lparr>state = Destroyed, token = None\<rparr>
   \<and> conn_state (connection (on_change (OptionsChanged (Some (demo_options\<lparr>manualAuth := True\<rparr>)))
        (on_change (AddressChanged (Some ''0xB'')) (new_api (Some demo_options) (Some ''0xA'')))))
       = Closed
   \<and> pending (on_change (OptionsChanged (Some (demo_options\<lparr>manualAuth := True\<rparr>)))
        (on_change (AddressChanged (Some ''0xB'')) (new_api (Some demo_options) (Some ''0xA''))))
       = 1
   \<and> session (auto_auth_settle (Inr ''token-1'')
        (on_change (OptionsChanged (Some (demo_options\<lparr>manualAuth := True\<rparr>)))
          (on_change (AddressChanged (Some ''0xB'')) (new_api (Some demo_options) (Some ''0xA'')))))
       = \<lparr>state = Verified, token = Some ''token-1''\<rparr>"
proof -
  let ?a = "new_api (Some demo_options) (Some ''0xA'')"
  let ?c1 = "AddressChanged (Some ''0xB'')"
  let ?c2 = "OptionsChanged (Some (demo_options\<lparr>manualAuth := True\<rparr>))"
  let ?s1 = "on_change ?c1 ?a"
  let ?s2 = "on_change ?c2 ?s1"
  have p0: "pending ?a = 0" by (simp add: new_api_demo)
  have yes: "canAuth (emit_change ?c1 ?a)"
    by (simp add: new_api_demo canAuth_def truthy_string_def demo_options_fields)
  have no: "\<not> canAuth (emit_change ?c2 ?s1)"
    by (simp add: canAuth_def on_options_def)
  from auto_auth_level_triggered [of ?c1 ?a ?a "Inl TypeError"] yes
  have "session ?s1 = \<lparr>state = Verifying, token = None\<rparr> \<and> pending ?s1 = Suc (pending ?a)"
    by blast
  with p0 have 1: "session ?s1 = \<lparr>state = Verifying, token = None\<rparr>" "pending ?s1 = 1"
    by simp_all
  from auto_auth_level_triggered [of ?c2 ?s1 ?a "Inl TypeError"] no
  have "session ?s2 = \<lparr>state = Destroyed, token = None\<rparr>
      \<and> conn_state (connection ?s2) = Closed \<and> pending ?s2 = pending ?s1"
    by blast
  with 1 have 2: "session ?s2 = \<lparr>state = Destroyed, token = None\<rparr>"
    "conn_state (connection ?s2) = Closed" "pending ?s2 = 1"
    by simp_all
  have pos: "0 < pending ?s2" using 2 by simp
  from auto_auth_level_triggered [of ?c1 ?a ?s2 "Inr ''token-1''"] pos
  have "session (auto_auth_settle (Inr ''token-1'') ?s2) =
      (case Inr ''token-1'' :: error + string of
         Inr tok \<Rightarrow> \<lparr>state = Verified, token = Some tok\<rparr>
       | Inl e \<Rightarrow> \<lparr>state = Destroyed, token = None\<rparr>)"
    by blast
  then have 3: "session (auto_auth_settle (Inr ''token-1'') ?s2)
      = \<lparr>state = Verified, token = Some ''token-1''\<rparr>"
    by simp
  from yes no 1 2 3 show ?thesis by blast
qed

section \<open>The signed secure action\<close>

text \<open>
  Claim C2, as the code has it. The handler of a signed-secure-action event emits a
  LinkAction only when a challenge is outstanding, the address recovered from the signature
  over its nonce is the reported signer, and the challenge is of the create-account-device
  kind; the action then names that address as the device address and as the data of the
  sender. With no challenge, or with a signer other than the recovered address, no action
  is emitted. The handler never touches the challenge slot: what it does on every way out,
  through \<^verbatim>\<open>finally\<close>, is \<^verbatim>\<open>destroySecureAction\<close>, which asks the relay to mute the
  connection (the frame is sent when the connection is Opened, otherwise
  \<^verbatim>\<open>errApiInvalidConnectionState\<close> goes to the error channel) and leaves the challenge
  where it is.
\<close>

theorem signed_secure_action_handler:
  "(secureAction sdk = None \<longrightarrow>
      on_signed_secure_action ext p sdk = (None, destroySecureAction ext sdk))
   \<and> (secureAction sdk = Some sa \<and> sa_type sa = CreateAccountDevice
        \<and> recoverAddressFromPersonalMessage ext (hash sa) (signature p) = Inr a
        \<and> signer p = Some a \<longrightarrow>
      on_signed_secure_action ext p sdk =
        (None, destroySecureAction ext
           (sdk\<lparr>incomingAction := incomingAction sdk @
               [\<lparr>action_type = CreateAccountDevice,
                 payload = ICreateAccountDevice (network_version sdk) (Some a) None,
                 sender = Some \<lparr>sender_type = Device, sender_data = Some a\<rparr>\<rparr>]\<rparr>)))
   \<and> (secureAction sdk = Some sa
        \<and> recoverAddressFromPersonalMessage ext (hash sa) (signature p) = Inr a
        \<and> signer p \<noteq> Some a \<longrightarrow>
      on_signed_secure_action ext p sdk = (None, destroySecureAction ext sdk))
   \<and> secureAction (snd (on_signed_secure_action ext p sdk)) = secureAction sdk
   \<and> secureAction (destroySecureAction ext sdk) = secureAction sdk
   \<and> incomingAction (destroySecureAction ext sdk) = incomingAction sdk
   \<and> api (destroySecureAction ext sdk) =
       (if opened (connection (api sdk))
        then (api sdk)\<lparr>connection := (connection (api sdk))
               \<lparr>sent := sent (connection (api sdk)) @ [encodeApiEvent ext MuteConnection]\<rparr>\<rparr>
        else api sdk)
   \<and> sdk_errors (destroySecureAction ext sdk) =
       (if opened (connection (api sdk)) then sdk_errors sdk
        else sdk_errors sdk @ [errApiInvalidConnectionState])"
  using handler_match [of sdk sa ext p a]
  by (simp add: handler_no_challenge handler_mismatch handler_keeps_slot
        destroySecureAction_fields)
     (simp add: destroySecureAction_eq)

theorem signed_secure_action_handler_witness:
  "secureAction (demo_sdk Opened) = None
   \<and> on_signed_secure_action demo_ext (demo_response ''0xB'' [1, 2]) (demo_sdk Opened)
       = (None, destroySecureAction demo_ext (demo_sdk Opened))
   \<and> secureAction (snd (createSecureActionUrl demo_ext (\<lambda>i. 7) CreateAccountDevice (demo_sdk Opened)))
       = Some \<lparr>sa_type = CreateAccountDevice, hash = randomBytes (\<lambda>i. 7) 16\<rparr>
   \<and> demo_recover (randomBytes (\<lambda>i. 7) 16) (demo_sign ''0xB'' (randomBytes (\<lambda>i. 7) 16)) = Inr ''0xB''
   \<and> incomingAction (snd (on_signed_secure_action demo_ext
          (demo_response ''0xB'' (randomBytes (\<lambda>i. 7) 16))
          (snd (createSecureActionUrl demo_ext (\<lambda>i. 7) CreateAccountDevice (demo_sdk Opened)))))
       = [\<lparr>action_type = CreateAccountDevice,
           payload = ICreateAccountDevice (Some ''1'') (Some ''0xB'') None,
           sender = Some \<lparr>sender_type = Device, sender_data = Some ''0xB''\<rparr>\<rparr>]
   \<and> secureAction (snd (on_signed_secure_action demo_ext
          (demo_response ''0xB'' (randomBytes (\<lambda>i. 7) 16))
          (snd (createSecureActionUrl demo_ext (\<lambda>i. 7) CreateAccountDevice (demo_sdk Opened)))))
       = Some \<lparr>sa_type = CreateAccountDevice, hash = randomBytes (\<lambda>i. 7) 16\<rparr>
   \<and> incomingAction (snd (on_signed_secure_action demo_ext
          ((demo_response ''0xB'' (randomBytes (\<lambda>i. 7) 16))\<lparr>signer := Some ''0xC''\<rparr>)
          (snd (createSecureActionUrl demo_ext (\<lambda>i. 7) CreateAccountDevice (demo_sdk Opened)))))
       = []"
proof -
  let ?n = "randomBytes (\<lambda>i. 7) 16"
  let ?s = "snd (createSecureActionUrl demo_ext (\<lambda>i. 7) CreateAccountDevice (demo_sdk Opened))"
  let ?sa = "\<lparr>sa_type = CreateAccountDevice, hash = ?n\<rparr>"
  let ?p = "demo_response ''0xB'' ?n"
  let ?q = "?p\<lparr>signer := Some ''0xC''\<rparr>"
  have none: "secureAction (demo_sdk Opened) = None" by (simp add: demo_sdk_fields)
  have some: "secureAction ?s = Some ?sa" by (simp add: demo_challenge_fields)
  have rec: "recoverAddressFromPersonalMessage demo_ext (hash ?sa) (signature ?p) = Inr ''0xB''"
    by (simp add: demo_ext_fields demo_response_fields demo_recover_sign)
  have rec': "recoverAddressFromPersonalMessage demo_ext (hash ?sa) (signature ?q) = Inr ''0xB''"
    by (simp add: demo_ext_fields demo_response_fields demo_recover_sign)
  have sp: "signer ?p = Some ''0xB''" by (simp add: demo_response_fields)
  have sq: "signer ?q \<noteq> Some ''0xB''" by simp
  from signed_secure_action_handler [of "demo_sdk Opened" demo_ext "demo_response ''0xB'' [1, 2]"] none
  have 1: "on_signed_secure_action demo_ext (demo_response ''0xB'' [1, 2]) (demo_sdk Opened)
       = (None, destroySecureAction demo_ext (demo_sdk Opened))"
    by blast
  from signed_secure_action_handler [of ?s demo_ext ?p ?sa "''0xB''"] some rec sp
  have 2: "on_signed_secure_action demo_ext ?p ?s =
        (None, destroySecureAction demo_ext
           (?s\<lparr>incomingAction := incomingAction ?s @
               [\<lparr>action_type = CreateAccountDevice,
                 payload = ICreateAccountDevice (network_version ?s) (Some ''0xB'') None,
                 sender = Some \<lparr>sender_type = Device, sender_data = Some ''0xB''\<rparr>\<rparr>]\<rparr>))"
    by simp
  from signed_secure_action_handler [of ?s demo_ext ?q ?sa "''0xB''"] some rec' sq
  have 3: "on_signed_secure_action demo_ext ?q ?s = (None, destroySecureAction demo_ext ?s)"
    by blast
  have 4: "demo_recover ?n (demo_sign ''0xB'' ?n) = Inr ''0xB''" by (rule demo_recover_sign)
  show ?thesis
    unfolding 1 2 3
    by (simp add: none some 4 destroySecureAction_fields demo_challenge_fields)
qed

text \<open>
  Claim C2 as stated fails twice: an event that finds no challenge is not without effect (on
  an open connection a mute request is sent), and a correctly signed response leaves the
  challenge outstanding.
\<close>

theorem signed_secure_action_counterexample:
  "secureAction (demo_sdk Opened) = None
   \<and> sent (connection (api (demo_sdk Opened))) = []
   \<and> sent (connection (api (snd (on_signed_secure_action demo_ext (demo_response ''0xB'' [1, 2])
        (demo_sdk Opened))))) = [[7]]
   \<and> demo_recover (randomBytes (\<lambda>i. 7) 16) (demo_sign ''0xB'' (randomBytes (\<lambda>i. 7) 16)) = Inr ''0xB''
   \<and> secureAction (snd (on_signed_secure_action demo_ext
          (demo_response ''0xB'' (randomBytes (\<lambda>i. 7) 16))
          (snd (createSecureActionUrl demo_ext (\<lambda>i. 7) CreateAccountDevice (demo_sdk Opened)))))
       = Some \<lparr>sa_type = CreateAccountDevice, hash = randomBytes (\<lambda>i. 7) 16\<rparr>"
  by (simp add: handler_keeps_slot demo_challenge_fields demo_recover_sign demo_sdk_fields
        handler_no_challenge destroySecureAction_eq opened_def demo_ext_fields)

section \<open>Cancelling the secure action\<close>

text \<open>
  Claim C4, as the code has it. \<^verbatim>\<open>destroySecureAction\<close> only asks the relay to mute the
  connection: it sends the mute-connection event when the connection is Opened and reports
  \<^verbatim>\<open>errApiInvalidConnectionState\<close> on the error channel otherwise; the challenge slot and
  the emitted actions are untouched. The slot is cleared when the connection reports
  \<^verbatim>\<open>muted == true\<close>, on the muted stream and so also after a connection-muted event, and
  not when it reports \<open>false\<close>. After such a report a signed response, valid or not, emits
  no LinkAction.
\<close>

theorem destroySecureAction_requests_mute:
  "secureAction (destroySecureAction ext sdk) = secureAction sdk
   \<and> incomingAction (destroySecureAction ext sdk) = incomingAction sdk
   \<and> api (destroySecureAction ext sdk) =
       (if opened (connection (api sdk))
        then (api sdk)\<lparr>connection := (connection (api sdk))
               \<lparr>sent := sent (connection (api sdk)) @ [encodeApiEvent ext MuteConnection]\<rparr>\<rparr>
        else api sdk)
   \<and> sdk_errors (destroySecureAction ext sdk) =
       (if opened (connection (api sdk)) then sdk_errors sdk
        else sdk_errors sdk @ [errApiInvalidConnectionState])
   \<and> on_muted True sdk = sdk\<lparr>secureAction := None\<rparr>
   \<and> on_muted False sdk = sdk
   \<and> secureAction (on_api_event ext env ConnectionMuted sdk) = None
   \<and> on_signed_secure_action ext p (on_muted True sdk)
       = (None, destroySecureAction ext (on_muted True sdk))
   \<and> incomingAction (snd (on_signed_secure_action ext p (on_muted True sdk))) = incomingAction sdk
   \<and> secureAction (snd (on_signed_secure_action ext p (on_muted True sdk))) = None"
  by (simp add: destroySecureAction_fields handler_no_challenge on_muted_fields
        on_api_event_def set_muted_def)
     (simp add: destroySecureAction_eq on_muted_def)

theorem destroySecureAction_requests_mute_witness:
  "secureAction (destroySecureAction demo_ext
      (snd (createSecureActionUrl demo_ext (\<lambda>i. 7) CreateAccountDevice (demo_sdk Opened))))
     = Some \<lparr>sa_type = CreateAccountDevice, hash = randomBytes (\<lambda>i. 7) 16\<rparr>
   \<and> secureAction (on_muted True
      (snd (createSecureActionUrl demo_ext (\<lambda>i. 7) CreateAccountDevice (demo_sdk Opened)))) = None
   \<and> incomingAction (snd (on_signed_secure_action demo_ext
        (demo_response ''0xB'' (randomBytes (\<lambda>i. 7) 16))
        (on_muted True
          (snd (createSecureActionUrl demo_ext (\<lambda>i. 7) CreateAccountDevice (demo_sdk Opened))))))
     = []"
proof -
  let ?s = "snd (createSecureActionUrl demo_ext (\<lambda>i. 7) CreateAccountDevice (demo_sdk Opened))"
  note fact = destroySecureAction_requests_mute
    [of demo_ext ?s "\<lparr>account_response = Inr None, accountDevice_response = Inr None\<rparr>"
        "demo_response ''0xB'' (randomBytes (\<lambda>i. 7) 16)"]
  have "secureAction (destroySecureAction demo_ext ?s) = secureAction ?s"
    and "on_muted True ?s = ?s\<lparr>secureAction := None\<rparr>"
    and "incomingAction (snd (on_signed_secure_action demo_ext
          (demo_response ''0xB'' (randomBytes (\<lambda>i. 7) 16)) (on_muted True ?s)))
         = incomingAction ?s"
    using fact by blast+
  then show ?thesis by (simp add: demo_challenge_fields)
qed

text \<open>
  Claim C4 as stated fails for the explicit cancel: after \<^verbatim>\<open>destroySecureAction\<close> the
  challenge is still outstanding, and a valid signed response that follows is accepted.
\<close>

theorem destroySecureAction_counterexample:
  "secureAction (destroySecureAction demo_ext
      (snd (createSecureActionUrl demo_ext (\<lambda>i. 7) CreateAccountDevice (demo_sdk Opened))))
     = Some \<lparr>sa_type = CreateAccountDevice, hash = randomBytes (\<lambda>i. 7) 16\<rparr>
   \<and> demo_recover (randomBytes (\<lambda>i. 7) 16) (demo_sign ''0xB'' (randomBytes (\<lambda>i. 7) 16)) = Inr ''0xB''
   \<and> incomingAction (snd (on_signed_secure_action demo_ext
        (demo_response ''0xB'' (randomBytes (\<lambda>i. 7) 16))
        (destroySecureAction demo_ext
          (snd (createSecureActionUrl demo_ext (\<lambda>i. 7) CreateAccountDevice (demo_sdk Opened))))))
     = [\<lparr>action_type = CreateAccountDevice,
         payload = ICreateAccountDevice (Some ''1'') (Some ''0xB'') None,
         sender = Some \<lparr>sender_type = Device, sender_data = Some ''0xB''\<rparr>\<rparr>]"
proof -
  let ?n = "randomBytes (\<lambda>i. 7) 16"
  let ?s = "snd (createSecureActionUrl demo_ext (\<lambda>i. 7) CreateAccountDevice (demo_sdk Opened))"
  let ?sa = "\<lparr>sa_type = CreateAccountDevice, hash = ?n\<rparr>"
  let ?p = "demo_response ''0xB'' ?n"
  have some: "secureAction (destroySecureAction demo_ext ?s) = Some ?sa"
    by (simp add: destroySecureAction_fields demo_challenge_fields)
  have rec: "recoverAddressFromPersonalMessage demo_ext (hash ?sa) (signature ?p) = Inr ''0xB''"
    by (simp add: demo_ext_fields demo_response_fields demo_recover_sign)
  have sp: "signer ?p = Some ''0xB''" by (simp add: demo_response_fields)
  show ?thesis
    unfolding handler_match [OF some rec sp]
    by (simp add: destroySecureAction_fields demo_challenge_fields demo_recover_sign)
qed

section \<open>Creating a challenge\<close>

text \<open>
  Claim C6, as the code has it. \<^verbatim>\<open>createSecureActionUrl\<close> draws a nonce of 16 random
  bytes, stores the action type with the nonce as the one outstanding challenge whatever
  was there before, and returns what the linker builds from the secure action with the
  network version and the nonce, for sender type device. It asks the relay to unmute: on an
  Opened connection the unmute-connection event is sent; otherwise nothing is sent,
  \<^verbatim>\<open>errApiInvalidConnectionState\<close> goes to the error channel, and the challenge is stored
  all the same. A signed response that does not verify against the new nonce, such as a
  late answer to an earlier challenge, emits no LinkAction and leaves the new challenge in
  place.
\<close>

theorem createSecureActionUrl_challenge:
  "length (randomBytes src 16) = 16
   \<and> secureAction (snd (createSecureActionUrl ext src ty sdk))
       = Some \<lparr>sa_type = ty, hash = randomBytes src 16\<rparr>
   \<and> fst (createSecureActionUrl ext src ty sdk)
       = buildActionUrl ext
           \<lparr>action_type = Secure, payload = ISecure (network_version sdk) (randomBytes src 16),
            sender = None\<rparr> Device
   \<and> (opened (connection (api sdk)) \<longrightarrow>
        api (snd (createSecureActionUrl ext src ty sdk)) =
          (api sdk)\<lparr>connection := (connection (api sdk))
             \<lparr>sent := sent (connection (api sdk)) @ [encodeApiEvent ext UnMuteConnection]\<rparr>\<rparr>
      \<and> sdk_errors (snd (createSecureActionUrl ext src ty sdk)) = sdk_errors sdk)
   \<and> (\<not> opened (connection (api sdk)) \<longrightarrow>
        api (snd (createSecureActionUrl ext src ty sdk)) = api sdk
      \<and> sdk_errors (snd (createSecureActionUrl ext src ty sdk))
          = sdk_errors sdk @ [errApiInvalidConnectionState])
   \<and> ((\<forall>a. recoverAddressFromPersonalMessage ext (randomBytes src 16) (signature p) = Inr a
            \<longrightarrow> signer p \<noteq> Some a) \<longrightarrow>
        incomingAction (snd (on_signed_secure_action ext p (snd (createSecureActionUrl ext src ty sdk))))
          = incomingAction sdk
      \<and> secureAction (snd (on_signed_secure_action ext p (snd (createSecureActionUrl ext src ty sdk))))
          = Some \<lparr>sa_type = ty, hash = randomBytes src 16\<rparr>)"
proof -
  let ?s = "snd (createSecureActionUrl ext src ty sdk)"
  have slot: "secureAction ?s = Some \<lparr>sa_type = ty, hash = randomBytes src 16\<rparr>"
    by (simp add: createSecureActionUrl_eq)
  have inc: "incomingAction ?s = incomingAction sdk"
    by (simp add: createSecureActionUrl_eq unMuteApiConnection_fields)
  have late: "incomingAction (snd (on_signed_secure_action ext p ?s)) = incomingAction sdk"
    if "\<forall>a. recoverAddressFromPersonalMessage ext (randomBytes src 16) (signature p) = Inr a
            \<longrightarrow> signer p \<noteq> Some a"
  proof (cases "recoverAddressFromPersonalMessage ext (randomBytes src 16) (signature p)")
    case (Inl e)
    with handler_throws [OF slot, of ext p e] show ?thesis
      by (simp add: destroySecureAction_fields inc)
  next
    case (Inr a)
    with that have "signer p \<noteq> Some a" by blast
    with handler_mismatch [OF slot, of ext p a] Inr show ?thesis
      by (simp add: destroySecureAction_fields inc)
  qed
  show ?thesis
    using late
    by (simp add: length_randomBytes slot handler_keeps_slot)
       (simp add: createSecureActionUrl_eq unMuteApiConnection_eq)
qed

theorem createSecureActionUrl_challenge_witness:
  "opened (connection (api
      (snd (createSecureActionUrl demo_ext (\<lambda>i. 7) CreateAccountDevice (demo_sdk Opened)))))
   \<and> length (randomBytes (\<lambda>i. 9) 16) = 16
   \<and> secureAction (snd (createSecureActionUrl demo_ext (\<lambda>i. 9) CreateAccountDevice
        (snd (createSecureActionUrl demo_ext (\<lambda>i. 7) CreateAccountDevice (demo_sdk Opened)))))
       = Some \<lparr>sa_type = CreateAccountDevice, hash = randomBytes (\<lambda>i. 9) 16\<rparr>
   \<and> sent (connection (api (snd (createSecureActionUrl demo_ext (\<lambda>i. 9) CreateAccountDevice
        (snd (createSecureActionUrl demo_ext (\<lambda>i. 7) CreateAccountDevice (demo_sdk Opened)))))))
       = [[8], [8]]
   \<and> demo_recover (randomBytes (\<lambda>i. 9) 16) (demo_sign ''0xB'' (randomBytes (\<lambda>i. 7) 16))
       = Inl (CollaboratorError ''invalid signature'')
   \<and> incomingAction (snd (on_signed_secure_action demo_ext
        (demo_response ''0xB'' (randomBytes (\<lambda>i. 7) 16))
        (snd (createSecureActionUrl demo_ext (\<lambda>i. 9) CreateAccountDevice
          (snd (createSecureActionUrl demo_ext (\<lambda>i. 7) CreateAccountDevice (demo_sdk Opened)))))))
       = []
   \<and> secureAction (snd (on_signed_secure_action demo_ext
        (demo_response ''0xB'' (randomBytes (\<lambda>i. 7) 16))
        (snd (createSecureActionUrl demo_ext (\<lambda>i. 9) CreateAccountDevice
          (snd (createSecureActionUrl demo_ext (\<lambda>i. 7) CreateAccountDevice (demo_sdk Opened)))))))
       = Some \<lparr>sa_type = CreateAccountDevice, hash = randomBytes (\<lambda>i. 9) 16\<rparr>
   \<and> \<not> opened (connection (api (demo_sdk Closed)))
   \<and> sdk_errors (snd (createSecureActionUrl demo_ext (\<lambda>i. 7) CreateAccountDevice (demo_sdk Closed)))
       = [errApiInvalidConnectionState]"
proof -
  let ?s1 = "snd (createSecureActionUrl demo_ext (\<lambda>i. 7) CreateAccountDevice (demo_sdk Opened))"
  let ?p = "demo_response ''0xB'' (randomBytes (\<lambda>i. 7) 16)"
  have o1: "opened (connection (api ?s1))"
    by (simp add: opened_def demo_challenge_fields)
  have c0: "\<not> opened (connection (api (demo_sdk Closed)))"
    by (simp add: opened_def demo_sdk_fields)
  have late: "\<forall>a. recoverAddressFromPersonalMessage demo_ext (randomBytes (\<lambda>i. 9) 16) (signature ?p)
      = Inr a \<longrightarrow> signer ?p \<noteq> Some a"
    by (simp add: demo_ext_fields demo_response_fields demo_late_recover)
  have sent1: "sent (connection (api ?s1)) = [[8]]" "incomingAction ?s1 = []"
    by (simp_all add: createSecureActionUrl_eq unMuteApiConnection_eq opened_def demo_sdk_fields
          demo_ext_fields)
  note second = createSecureActionUrl_challenge
    [of "\<lambda>i. 9" demo_ext CreateAccountDevice ?s1 ?p]
  note closed = createSecureActionUrl_challenge
    [of "\<lambda>i. 7" demo_ext CreateAccountDevice "demo_sdk Closed" ?p]
  from second o1 late sent1 closed c0 show ?thesis
    by (simp add: demo_late_recover demo_ext_fields demo_sdk_fields)
qed

text \<open>
  Claim C6 as stated fails in two places: on a connection that is not Opened the call
  unmutes nothing, and a late response to the first challenge is not without effect, since
  the handler sends a mute request on its way out.
\<close>

theorem createSecureActionUrl_counterexample:
  "\<not> opened (connection (api (demo_sdk Closed)))
   \<and> muted (connection (api (demo_sdk Closed)))
   \<and> connection (api (snd (createSecureActionUrl demo_ext (\<lambda>i. 7) CreateAccountDevice (demo_sdk Closed))))
       = connection (api (demo_sdk Closed))
   \<and> sdk_errors (snd (createSecureActionUrl demo_ext (\<lambda>i. 7) CreateAccountDevice (demo_sdk Closed)))
       = [errApiInvalidConnectionState]
   \<and> sent (connection (api (snd (createSecureActionUrl demo_ext (\<lambda>i. 9) CreateAccountDevice
        (snd (createSecureActionUrl demo_ext (\<lambda>i. 7) CreateAccountDevice (demo_sdk Opened)))))))
       = [[8], [8]]
   \<and> sent (connection (api (snd (on_signed_secure_action demo_ext
        (demo_response ''0xB'' (randomBytes (\<lambda>i. 7) 16))
        (snd (createSecureActionUrl demo_ext (\<lambda>i. 9) CreateAccountDevice
          (snd (createSecureActionUrl demo_ext (\<lambda>i. 7) CreateAccountDevice (demo_sdk Opened)))))))))
       = [[8], [8], [7]]"
proof -
  let ?s1 = "snd (createSecureActionUrl demo_ext (\<lambda>i. 7) CreateAccountDevice (demo_sdk Opened))"
  let ?s2 = "snd (createSecureActionUrl demo_ext (\<lambda>i. 9) CreateAccountDevice ?s1)"
  let ?p = "demo_response ''0xB'' (randomBytes (\<lambda>i. 7) 16)"
  have slot: "secureAction ?s2 = Some \<lparr>sa_type = CreateAccountDevice, hash = randomBytes (\<lambda>i. 9) 16\<rparr>"
    by (simp add: createSecureActionUrl_eq)
  have rec: "recoverAddressFromPersonalMessage demo_ext
      (hash \<lparr>sa_type = CreateAccountDevice, hash = randomBytes (\<lambda>i. 9) 16\<rparr>) (signature ?p)
      = Inl (CollaboratorError ''invalid signature'')"
    by (simp add: demo_ext_fields demo_response_fields demo_late_recover)
  have sent2: "sent (connection (api ?s2)) = [[8], [8]]" "opened (connection (api ?s2))"
    by (simp_all add: createSecureActionUrl_eq unMuteApiConnection_eq opened_def demo_sdk_fields
          demo_ext_fields)
  have closed: "connection (api (snd (createSecureActionUrl demo_ext (\<lambda>i. 7) CreateAccountDevice
        (demo_sdk Closed)))) = connection (api (demo_sdk Closed))"
     "sdk_errors (snd (createSecureActionUrl demo_ext (\<lambda>i. 7) CreateAccountDevice (demo_sdk Closed)))
       = [errApiInvalidConnectionState]"
    by (simp_all add: createSecureActionUrl_eq unMuteApiConnection_eq opened_def demo_sdk_fields)
  show ?thesis
    unfolding handler_throws [OF slot rec]
    using sent2 closed
    by (simp add: destroySecureAction_eq demo_ext_fields opened_def demo_sdk_fields)
qed

section \<open>Account updates\<close>

text \<open>
  Claim C9. On an account-updated event for the tracked account, the local account
  attributes and account-device attributes are both replaced by the fetched ones when both
  re-fetches return data; when either returns nothing or throws, the Sdk is left exactly
  as it was.
\<close>

theorem account_updated_all_or_nothing:
  "account_ensName sdk = Some name \<Longrightarrow>
     (getAccount (api sdk) (account_response env) = Inr (Some acc)
        \<and> getAccountDevice (api sdk) (accountDevice_response env) = Inr (Some dev) \<longrightarrow>
      on_account_updated env name sdk =
        (None, sdk\<lparr>account := Some acc, accountDevice := Some dev\<rparr>))
     \<and> ((\<forall>acc' dev'. \<not> (getAccount (api sdk) (account_response env) = Inr (Some acc')
              \<and> getAccountDevice (api sdk) (accountDevice_response env) = Inr (Some dev'))) \<longrightarrow>
      snd (on_account_updated env name sdk) = sdk)"
  by (auto simp: on_account_updated_def split: sum.splits)

theorem account_updated_all_or_nothing_witness:
  "account_ensName demo_account_sdk = Some ''alice.blockid.eth''
   \<and> on_account_updated (demo_account_env (Some ''device, version 2'')) ''alice.blockid.eth''
        demo_account_sdk
       = (None, demo_account_sdk
            \<lparr>account := Some \<lparr>ensName = Some ''alice.blockid.eth'', \<dots> = ''deployed''\<rparr>,
             accountDevice := Some ''device, version 2''\<rparr>)
   \<and> snd (on_account_updated (demo_account_env None) ''alice.blockid.eth'' demo_account_sdk)
       = demo_account_sdk"
proof -
  note name = demo_account_fetch(3)
  from account_updated_all_or_nothing
    [OF name, of "demo_account_env (Some ''device, version 2'')"
       "\<lparr>ensName = Some ''alice.blockid.eth'', \<dots> = ''deployed''\<rparr>" "''device, version 2''"]
  have 1: "on_account_updated (demo_account_env (Some ''device, version 2'')) ''alice.blockid.eth''
        demo_account_sdk
       = (None, demo_account_sdk
            \<lparr>account := Some \<lparr>ensName = Some ''alice.blockid.eth'', \<dots> = ''deployed''\<rparr>,
             accountDevice := Some ''device, version 2''\<rparr>)"
    by (simp add: demo_account_fetch)
  from account_updated_all_or_nothing [OF name, of "demo_account_env None"]
  have 2: "snd (on_account_updated (demo_account_env None) ''alice.blockid.eth'' demo_account_sdk)
       = demo_account_sdk"
    by (simp add: demo_account_fetch)
  from name 1 2 show ?thesis by blast
qed

end
